theory Spec2Isabelle
  imports Main
begin

text \<open>
  A shallow embedding of \<^verbatim>\<open>script.py\<close>, the text-to-website generator: the string
  functions it calls, the file system it writes to, the completion service it asks, the
  generator class with its post-processing and its file methods, and \<^verbatim>\<open>main\<close>. The
  claims of the specification are stated and settled at the end.
\<close>

section \<open>Python strings\<close>

text \<open>
  A Python \<^verbatim>\<open>str\<close> is modelled as a \<^typ>\<open>string\<close>: a list of characters, each read as the
  code point of the same number (the Latin-1 range of Unicode). The library functions
  the script calls on strings are written out below as they behave on that range.
\<close>

text \<open>\<^verbatim>\<open>str.isspace\<close> on one character: the white space of Unicode below code point 256.\<close>

definition isspace :: "char \<Rightarrow> bool" where
  "isspace c = (c \<in> set [CHR 0x09, CHR 0x0A, CHR 0x0B, CHR 0x0C, CHR 0x0D,
      CHR 0x1C, CHR 0x1D, CHR 0x1E, CHR 0x1F, CHR 0x20, CHR 0x85, CHR 0xA0])"

text \<open>\<^verbatim>\<open>s.strip()\<close>: white space is removed from both ends.\<close>

definition py_strip :: "string \<Rightarrow> string" where
  "py_strip s = rev (dropWhile isspace (rev (dropWhile isspace s)))"

text \<open>\<^verbatim>\<open>s.startswith(p)\<close>.\<close>

fun startswith :: "string \<Rightarrow> string \<Rightarrow> bool" where
  "startswith s [] = True"
| "startswith [] (p # ps) = False"
| "startswith (c # cs) (p # ps) = (c = p \<and> startswith cs ps)"

text \<open>\<^verbatim>\<open>sub in s\<close>: \<open>sub\<close> occurs in \<open>s\<close> at some position.\<close>

fun contains :: "string \<Rightarrow> string \<Rightarrow> bool" where
  "contains [] sub = startswith [] sub"
| "contains (c # cs) sub = (startswith (c # cs) sub \<or> contains cs sub)"

text \<open>\<^verbatim>\<open>s.split(sep)\<close> for a separator of one character: the result is never empty.\<close>

fun split_char :: "char \<Rightarrow> string \<Rightarrow> string list" where
  "split_char sep [] = [[]]"
| "split_char sep (c # cs) =
     (if c = sep then [] # split_char sep cs
      else (case split_char sep cs of [] \<Rightarrow> [[c]] | l # ls \<Rightarrow> (c # l) # ls))"

text \<open>\<^verbatim>\<open>sep.join(lines)\<close> for a separator of one character.\<close>

fun join_char :: "char \<Rightarrow> string list \<Rightarrow> string" where
  "join_char sep [] = []"
| "join_char sep [l] = l"
| "join_char sep (l # m # ls) = l @ sep # join_char sep (m # ls)"

text \<open>A text given by its lines, each one ended by a newline.\<close>

definition unlines :: "string list \<Rightarrow> string" where
  "unlines ls = concat (map (\<lambda>l. l @ [CHR 0x0A]) ls)"

text \<open>\<^verbatim>\<open>s.lower()\<close>: below code point 256 the upper-case letters are A to Z and
  U+00C0 to U+00DE without the multiplication sign U+00D7; each maps to the code point
  32 above it.\<close>

definition lower_char :: "char \<Rightarrow> char" where
  "lower_char c =
     (let n = (of_char c :: nat)
      in if (65 \<le> n \<and> n \<le> 90) \<or> (192 \<le> n \<and> n \<le> 222 \<and> n \<noteq> 215)
         then char_of (n + 32) else c)"

definition py_lower :: "string \<Rightarrow> string" where
  "py_lower s = map lower_char s"

text \<open>\<^verbatim>\<open>s.replace(old, new)\<close> for \<open>old\<close> and \<open>new\<close> of one character each.\<close>

definition replace_char :: "char \<Rightarrow> char \<Rightarrow> string \<Rightarrow> string" where
  "replace_char old new s = map (\<lambda>c. if c = old then new else c) s"

text \<open>The text-mode translation of line ends when a file is read: \<^verbatim>\<open>\r\n\<close> and a lone
  \<^verbatim>\<open>\r\<close> both become \<^verbatim>\<open>\n\<close>.\<close>

fun universal_newlines :: "string \<Rightarrow> string" where
  "universal_newlines [] = []"
| "universal_newlines [c] = (if c = CHR 0x0D then [CHR 0x0A] else [c])"
| "universal_newlines (c # d # cs) =
     (if c = CHR 0x0D \<and> d = CHR 0x0A then CHR 0x0A # universal_newlines cs
      else if c = CHR 0x0D then CHR 0x0A # universal_newlines (d # cs)
      else c # universal_newlines (d # cs))"

text \<open>A string as \<^verbatim>\<open>json.dump\<close> writes it (\<^verbatim>\<open>ensure_ascii\<close> is on): quoted, with the
  backslash, the double quote and every character outside the printable ASCII range
  escaped.\<close>

definition hex_digit :: "nat \<Rightarrow> char" where
  "hex_digit n = ''0123456789abcdef'' ! (n mod 16)"

definition json_escape :: "char \<Rightarrow> string" where
  "json_escape c =
     (let n = (of_char c :: nat) in
      if c = CHR 0x5C then [CHR 0x5C, CHR 0x5C]
      else if c = CHR 0x22 then [CHR 0x5C, CHR 0x22]
      else if c = CHR 0x08 then [CHR 0x5C, CHR ''b'']
      else if c = CHR 0x0C then [CHR 0x5C, CHR ''f'']
      else if c = CHR 0x0A then [CHR 0x5C, CHR ''n'']
      else if c = CHR 0x0D then [CHR 0x5C, CHR ''r'']
      else if c = CHR 0x09 then [CHR 0x5C, CHR ''t'']
      else if 32 \<le> n \<and> n \<le> 126 then [c]
      else [CHR 0x5C, CHR ''u'', CHR ''0'', CHR ''0'', hex_digit (n div 16), hex_digit n])"

definition json_string :: "string \<Rightarrow> string" where
  "json_string s = CHR 0x22 # concat (map json_escape s) @ [CHR 0x22]"

section \<open>Paths and the file system\<close>

text \<open>
  A \<^verbatim>\<open>pathlib.Path\<close> is its anchor and its list of parts. The anchor is empty for a
  relative path, one slash for an absolute one, and two slashes for a text that begins
  with exactly two slashes, which pathlib keeps as a root of its own. The file system
  maps a path to the node it holds; a path without parts (the current directory, a
  root) always exists. The three anchors are three separate trees: the model does not
  know where the current directory lies below the root. In a \<^verbatim>\<open>Path\<close> the parts are plain
  names, \<^verbatim>\<open>..\<close> among them; symbolic links and access rights are outside the model, so
  the errors below are the ones the tree itself causes.
\<close>

datatype anchor = Relative | Slash | DoubleSlash

type_synonym path = "anchor \<times> string list"

text \<open>\<^verbatim>\<open>Path(s)\<close>: the text is cut at every slash; empty parts and \<^verbatim>\<open>.\<close> are dropped.\<close>

definition anchor_of :: "string \<Rightarrow> anchor" where
  "anchor_of s =
     (if startswith s ''//'' \<and> \<not> startswith s ''///'' then DoubleSlash
      else if startswith s ''/'' then Slash
      else Relative)"

definition Path :: "string \<Rightarrow> path" where
  "Path s = (anchor_of s, filter (\<lambda>c. c \<noteq> [] \<and> c \<noteq> ''.'') (split_char CHR ''/'' s))"

text \<open>\<^verbatim>\<open>p / s\<close>: an absolute right-hand side replaces the left one.\<close>

definition joinpath :: "path \<Rightarrow> string \<Rightarrow> path" where
  "joinpath p s = (let q = Path s in if fst q \<noteq> Relative then q else (fst p, snd p @ snd q))"

definition parent :: "path \<Rightarrow> path" where
  "parent p = (fst p, butlast (snd p))"

definition is_root :: "path \<Rightarrow> bool" where
  "is_root p = (snd p = [])"

text \<open>\<^verbatim>\<open>str(p)\<close>.\<close>

definition path_str :: "path \<Rightarrow> string" where
  "path_str p =
     (case fst p of
        Relative \<Rightarrow> if snd p = [] then ''.'' else join_char CHR ''/'' (snd p)
      | Slash \<Rightarrow> ''/'' @ join_char CHR ''/'' (snd p)
      | DoubleSlash \<Rightarrow> ''//'' @ join_char CHR ''/'' (snd p))"

text \<open>A file holds its text; \<open>Undecodable\<close> is a file whose bytes are not UTF-8.\<close>

datatype node = Dir | File string | Undecodable

type_synonym filesystem = "path \<rightharpoonup> node"

definition node_at :: "filesystem \<Rightarrow> path \<Rightarrow> node option" where
  "node_at fs p = (if is_root p then Some Dir else fs p)"

definition path_exists :: "filesystem \<Rightarrow> path \<Rightarrow> bool" where
  "path_exists fs p = (node_at fs p \<noteq> None)"

definition is_dir :: "filesystem \<Rightarrow> path \<Rightarrow> bool" where
  "is_dir fs p = (node_at fs p = Some Dir)"

text \<open>\<open>under p q\<close>: \<open>q\<close> is \<open>p\<close> or lies below it.\<close>

definition under :: "path \<Rightarrow> path \<Rightarrow> bool" where
  "under p q = (fst p = fst q \<and> take (length (snd p)) (snd q) = snd p)"

text \<open>The exceptions of the script's calls.\<close>

datatype exn =
    APIConnectionError | APIStatusError nat
  | IndexError | AttributeError
  | FileNotFoundError | FileExistsError | NotADirectoryError | IsADirectoryError | OSError
  | UnicodeDecodeError | UnicodeEncodeError

text \<open>
  \<^verbatim>\<open>shutil.rmtree(p)\<close>: a directory goes with everything below it. On a file it raises
  and changes nothing; on the current directory or the root it empties the directory
  and raises when it comes to remove the directory itself. An exception leaves the
  file system as it is at that moment, so the result is the exception, if any, and the
  file system.
\<close>

definition rmtree :: "path \<Rightarrow> filesystem \<Rightarrow> exn option \<times> filesystem" where
  "rmtree p fs =
     (if is_root p then (Some OSError, (\<lambda>q. if under p q \<and> q \<noteq> p then None else fs q))
      else (case fs p of
              Some Dir \<Rightarrow> (None, (\<lambda>q. if under p q then None else fs q))
            | Some _ \<Rightarrow> (Some NotADirectoryError, fs)
            | None \<Rightarrow> (Some FileNotFoundError, fs)))"

text \<open>\<^verbatim>\<open>os.mkdir(p)\<close>: the parent must be a directory and \<open>p\<close> must not exist.\<close>

definition os_mkdir :: "path \<Rightarrow> filesystem \<Rightarrow> exn + filesystem" where
  "os_mkdir p fs =
     (if is_root p then Inl FileExistsError
      else (case node_at fs (parent p) of
              None \<Rightarrow> Inl FileNotFoundError
            | Some Dir \<Rightarrow> (if fs p \<noteq> None then Inl FileExistsError else Inr (fs(p \<mapsto> Dir)))
            | Some _ \<Rightarrow> Inl NotADirectoryError))"

text \<open>
  \<^verbatim>\<open>Path.mkdir(parents, exist_ok)\<close> as pathlib writes it: try \<^verbatim>\<open>os.mkdir\<close>; on
  \<^verbatim>\<open>FileNotFoundError\<close> with \<open>parents\<close> make the parent (with \<open>parents\<close> and
  \<open>exist_ok\<close>) and then the directory once more without \<open>parents\<close>; on any other
  \<^verbatim>\<open>OSError\<close> pass if \<open>exist_ok\<close> and the path is a directory, else raise.
\<close>

function path_mkdir :: "bool \<Rightarrow> bool \<Rightarrow> path \<Rightarrow> filesystem \<Rightarrow> exn option \<times> filesystem" where
  "path_mkdir parents exist_ok p fs =
     (case os_mkdir p fs of
        Inr fs' \<Rightarrow> (None, fs')
      | Inl e \<Rightarrow>
          (if e = FileNotFoundError then
             (if \<not> parents \<or> is_root p then (Some e, fs)
              else (case path_mkdir True True (parent p) fs of
                      (Some e', fs') \<Rightarrow> (Some e', fs')
                    | (None, fs') \<Rightarrow> path_mkdir False exist_ok p fs'))
           else if \<not> exist_ok \<or> \<not> is_dir fs p then (Some e, fs)
           else (None, fs)))"
  by pat_completeness auto
termination
  by (relation "measure (\<lambda>(parents, exist_ok, p, fs). 2 * length (snd p) + (if parents then 1 else 0))")
     (auto simp: parent_def is_root_def)

text \<open>\<^verbatim>\<open>with open(p, 'w') as f: f.write(text)\<close>: the parent must be a directory and \<open>p\<close>
  must not be one; the file then holds exactly \<open>text\<close>.\<close>

definition write_text :: "path \<Rightarrow> string \<Rightarrow> filesystem \<Rightarrow> exn + filesystem" where
  "write_text p text fs =
     (if is_root p then Inl IsADirectoryError
      else (case node_at fs (parent p) of
              None \<Rightarrow> Inl FileNotFoundError
            | Some Dir \<Rightarrow> (if fs p = Some Dir then Inl IsADirectoryError else Inr (fs(p \<mapsto> File text)))
            | Some _ \<Rightarrow> Inl NotADirectoryError))"

subsection \<open>Paths given to the operating system as text\<close>

text \<open>
  \<^verbatim>\<open>main\<close> hands the text of \<^verbatim>\<open>--input\<close> to \<^verbatim>\<open>os.path.isfile\<close> and to \<^verbatim>\<open>open\<close> as it
  is, and the operating system resolves it part by part: an empty part and \<^verbatim>\<open>.\<close> stay
  where they are, \<^verbatim>\<open>..\<close> goes to the parent directory, a name goes to the entry of that
  name, and every part, the empty one after a last slash too, needs a directory to
  start from. The current directory and the directories above it always exist; the
  parent of the root is the root. Two slashes at the start are one here.
\<close>

definition os_node :: "filesystem \<Rightarrow> path \<Rightarrow> node option" where
  "os_node fs p = (if list_all (\<lambda>c. c = ''..'') (snd p) then Some Dir else fs p)"

definition os_up :: "path \<Rightarrow> path" where
  "os_up p =
     (if fst p = Relative \<and> list_all (\<lambda>c. c = ''..'') (snd p) then (Relative, snd p @ [''..''])
      else (fst p, butlast (snd p)))"

fun os_walk :: "filesystem \<Rightarrow> path \<Rightarrow> string list \<Rightarrow> node option" where
  "os_walk fs cur [] = os_node fs cur"
| "os_walk fs cur (c # cs) =
     (if os_node fs cur \<noteq> Some Dir then None
      else if c = [] \<or> c = ''.'' then os_walk fs cur cs
      else if c = ''..'' then os_walk fs (os_up cur) cs
      else os_walk fs (fst cur, snd cur @ [c]) cs)"

text \<open>The node a text leads to, if any; the empty text leads nowhere.\<close>

definition os_lookup :: "filesystem \<Rightarrow> string \<Rightarrow> node option" where
  "os_lookup fs s =
     (if s = [] then None
      else os_walk fs (if startswith s ''/'' then Slash else Relative, []) (split_char CHR ''/'' s))"

text \<open>\<^verbatim>\<open>os.path.isfile(s)\<close>: the text leads to a file; every error is \<^verbatim>\<open>False\<close>.\<close>

definition os_path_isfile :: "filesystem \<Rightarrow> string \<Rightarrow> bool" where
  "os_path_isfile fs s =
     (case os_lookup fs s of Some (File t) \<Rightarrow> True | Some Undecodable \<Rightarrow> True | _ \<Rightarrow> False)"

text \<open>\<^verbatim>\<open>with open(s, 'r', encoding='utf-8') as f: f.read()\<close>.\<close>

definition open_read :: "filesystem \<Rightarrow> string \<Rightarrow> exn + string" where
  "open_read fs s =
     (case os_lookup fs s of
        None \<Rightarrow> Inl FileNotFoundError
      | Some Dir \<Rightarrow> Inl IsADirectoryError
      | Some (File t) \<Rightarrow> Inr (universal_newlines t)
      | Some Undecodable \<Rightarrow> Inl UnicodeDecodeError)"

section \<open>The world the script runs in\<close>

text \<open>
  The completion request the script sends. The sampling parameters
  (\<^verbatim>\<open>temperature\<close>, the two penalties) are fixed floating-point literals and are not
  part of the record.
\<close>

record request =
  api_key_sent :: string
  model :: string
  system_content :: string
  user_content :: string
  max_tokens :: nat

text \<open>
  What the service does with a request: the client raises (no connection, or a status
  that is not a success), or there is a response, of which the script reads
  \<^verbatim>\<open>choices[i].message.content\<close>: a list of contents, each a string or \<^verbatim>\<open>None\<close>.
\<close>

datatype api_failure = NoConnection | BadStatus nat

type_synonym reply = "api_failure + string option list"

type_synonym service = "request \<Rightarrow> reply"

text \<open>A line of the log: \<open>ErrorExn msg e\<close> is \<^verbatim>\<open>logger.error(f"msg{e}")\<close>.\<close>

datatype log_entry = Info string | Error string | ErrorExn string exn

text \<open>What \<^verbatim>\<open>main\<close> prints at its end: the success lines with the project location, or
  the failure line.\<close>

datatype banner = SuccessBanner path | FailureBanner

text \<open>The world: the file system, the requests sent, the log, what was printed, and
  whether the encoding of standard output has the emoji of the banners (UTF-8 has
  them, ASCII and the legacy code pages have not).\<close>

record world =
  files :: filesystem
  requests :: "request list"
  log :: "log_entry list"
  stdout :: "banner list"
  stdout_utf8 :: bool

definition logger_info :: "string \<Rightarrow> world \<Rightarrow> world" where
  "logger_info msg w = w\<lparr>log := log w @ [Info msg]\<rparr>"

definition logger_error :: "string \<Rightarrow> world \<Rightarrow> world" where
  "logger_error msg w = w\<lparr>log := log w @ [Error msg]\<rparr>"

definition logger_error_exn :: "string \<Rightarrow> exn \<Rightarrow> world \<Rightarrow> world" where
  "logger_error_exn msg e w = w\<lparr>log := log w @ [ErrorExn msg e]\<rparr>"

section \<open>The generator\<close>

record ProjectConfig =
  project_name :: string
  output_dir :: string
  openai_api_key :: string

text \<open>\<^verbatim>\<open>DirectWebsiteGenerator\<close>: the configuration and the project path; the client holds
  the key of the configuration and nothing else.\<close>

record generator =
  config :: ProjectConfig
  project_path :: path

definition DirectWebsiteGenerator :: "ProjectConfig \<Rightarrow> generator" where
  "DirectWebsiteGenerator c =
     \<lparr>config = c, project_path = joinpath (Path (output_dir c)) (project_name c)\<rparr>"

section \<open>The literal texts of the script\<close>

text \<open>The literal \<^verbatim>\<open>next_config\<close> of \<^verbatim>\<open>create_next_config\<close>.\<close>

definition next_config :: string where
  \<open>next_config = unlines
    [''/** @type {import('next').NextConfig} */'',
     ''const nextConfig = {'',
     ''  eslint: {'',
     ''    ignoreDuringBuilds: true,'',
     ''  },'',
     ''  typescript: {'',
     ''    ignoreBuildErrors: false,'',
     ''  },'',
     ''}'',
     '''',
     ''module.exports = nextConfig'']\<close>

text \<open>The literal \<^verbatim>\<open>tailwind_config\<close> of \<^verbatim>\<open>create_tailwind_config\<close>.\<close>

definition tailwind_config :: string where
  \<open>tailwind_config = unlines
    [''/** @type {import('tailwindcss').Config} */'',
     ''module.exports = {'',
     ''  content: ['',
     ''    './src/pages/**/*.{js,ts,jsx,tsx,mdx}','',
     ''    './src/components/**/*.{js,ts,jsx,tsx,mdx}','',
     ''    './src/app/**/*.{js,ts,jsx,tsx,mdx}','',
     ''  ],'',
     ''  theme: {'',
     ''    extend: {'',
     ''      colors: {'',
     ''        border: "hsl(var(--border))",'',
     ''        input: "hsl(var(--input))",'',
     ''        ring: "hsl(var(--ring))",'',
     ''        background: "hsl(var(--background))",'',
     ''        foreground: "hsl(var(--foreground))",'',
     ''        primary: {'',
     ''          DEFAULT: "hsl(var(--primary))",'',
     ''          foreground: "hsl(var(--primary-foreground))",'',
     ''        },'',
     ''        secondary: {'',
     ''          DEFAULT: "hsl(var(--secondary))",'',
     ''          foreground: "hsl(var(--secondary-foreground))",'',
     ''        },'',
     ''        destructive: {'',
     ''          DEFAULT: "hsl(var(--destructive))",'',
     ''          foreground: "hsl(var(--destructive-foreground))",'',
     ''        },'',
     ''        muted: {'',
     ''          DEFAULT: "hsl(var(--muted))",'',
     ''          foreground: "hsl(var(--muted-foreground))",'',
     ''        },'',
     ''        accent: {'',
     ''          DEFAULT: "hsl(var(--accent))",'',
     ''          foreground: "hsl(var(--accent-foreground))",'',
     ''        },'',
     ''        popover: {'',
     ''          DEFAULT: "hsl(var(--popover))",'',
     ''          foreground: "hsl(var(--popover-foreground))",'',
     ''        },'',
     ''        card: {'',
     ''          DEFAULT: "hsl(var(--card))",'',
     ''          foreground: "hsl(var(--card-foreground))",'',
     ''        },'',
     ''      },'',
     ''      borderRadius: {'',
     ''        lg: "var(--radius)",'',
     ''        md: "calc(var(--radius) - 2px)",'',
     ''        sm: "calc(var(--radius) - 4px)",'',
     ''      },'',
     ''      animation: {'',
     ''        'fade-in': 'fadeIn 0.5s ease-in-out','',
     ''        'slide-up': 'slideUp 0.5s ease-out','',
     ''        'bounce-slow': 'bounce 2s infinite','',
     ''      },'',
     ''      keyframes: {'',
     ''        fadeIn: {'',
     ''          '0%': { opacity: '0' },'',
     ''          '100%': { opacity: '1' },'',
     ''        },'',
     ''        slideUp: {'',
     ''          '0%': { transform: 'translateY(20px)', opacity: '0' },'',
     ''          '100%': { transform: 'translateY(0)', opacity: '1' },'',
     ''        },'',
     ''      },'',
     ''    },'',
     ''  },'',
     ''  plugins: [],'',
     ''}'']\<close>

text \<open>The literal \<^verbatim>\<open>postcss_config\<close> of \<^verbatim>\<open>create_postcss_config\<close>.\<close>

definition postcss_config :: string where
  \<open>postcss_config = unlines
    [''module.exports = {'',
     ''  plugins: {'',
     ''    tailwindcss: {},'',
     ''    autoprefixer: {},'',
     ''  },'',
     ''}'']\<close>

text \<open>The literal \<^verbatim>\<open>globals_css\<close> of \<^verbatim>\<open>create_globals_css\<close>.\<close>

definition globals_css :: string where
  \<open>globals_css = unlines
    [''@tailwind base;'',
     ''@tailwind components;'',
     ''@tailwind utilities;'',
     '''',
     ''@layer base {'',
     ''  :root {'',
     ''    --background: 0 0% 100%;'',
     ''    --foreground: 222.2 84% 4.9%;'',
     ''    --card: 0 0% 100%;'',
     ''    --card-foreground: 222.2 84% 4.9%;'',
     ''    --popover: 0 0% 100%;'',
     ''    --popover-foreground: 222.2 84% 4.9%;'',
     ''    --primary: 221.2 83.2% 53.3%;'',
     ''    --primary-foreground: 210 40% 98%;'',
     ''    --secondary: 210 40% 96%;'',
     ''    --secondary-foreground: 222.2 47.4% 11.2%;'',
     ''    --muted: 210 40% 96%;'',
     ''    --muted-foreground: 215.4 16.3% 46.9%;'',
     ''    --accent: 210 40% 96%;'',
     ''    --accent-foreground: 222.2 47.4% 11.2%;'',
     ''    --destructive: 0 84.2% 60.2%;'',
     ''    --destructive-foreground: 210 40% 98%;'',
     ''    --border: 214.3 31.8% 91.4%;'',
     ''    --input: 214.3 31.8% 91.4%;'',
     ''    --ring: 221.2 83.2% 53.3%;'',
     ''    --radius: 0.75rem;'',
     ''  }'',
     '''',
     ''  .dark {'',
     ''    --background: 222.2 84% 4.9%;'',
     ''    --foreground: 210 40% 98%;'',
     ''    --card: 222.2 84% 4.9%;'',
     ''    --card-foreground: 210 40% 98%;'',
     ''    --popover: 222.2 84% 4.9%;'',
     ''    --popover-foreground: 210 40% 98%;'',
     ''    --primary: 217.2 91.2% 59.8%;'',
     ''    --primary-foreground: 222.2 47.4% 11.2%;'',
     ''    --secondary: 217.2 32.6% 17.5%;'',
     ''    --secondary-foreground: 210 40% 98%;'',
     ''    --muted: 217.2 32.6% 17.5%;'',
     ''    --muted-foreground: 215 20.2% 65.1%;'',
     ''    --accent: 217.2 32.6% 17.5%;'',
     ''    --accent-foreground: 210 40% 98%;'',
     ''    --destructive: 0 62.8% 30.6%;'',
     ''    --destructive-foreground: 210 40% 98%;'',
     ''    --border: 217.2 32.6% 17.5%;'',
     ''    --input: 217.2 32.6% 17.5%;'',
     ''    --ring: 224.3 76.3% 94.0%;'',
     ''  }'',
     ''}'',
     '''',
     ''@layer base {'',
     ''  * {'',
     ''    @apply border-border;'',
     ''  }'',
     ''  body {'',
     ''    @apply bg-background text-foreground;'',
     ''    font-feature-settings: "rlig" 1, "calt" 1;'',
     ''  }'',
     ''}'',
     '''',
     ''@layer components {'',
     ''  .btn {'',
     ''    @apply inline-flex items-center justify-center rounded-md text-sm font-medium ring-offset-background transition-colors focus-visible:outline-none focus-visible:ring-2 focus-visible:ring-ring focus-visible:ring-offset-2 disabled:pointer-events-none disabled:opacity-50;'',
     ''    @apply h-10 px-4 py-2;'',
     ''  }'',
     ''  '',
     ''  .btn-primary {'',
     ''    @apply bg-primary text-primary-foreground hover:bg-primary/90;'',
     ''  }'',
     ''  '',
     ''  .btn-secondary {'',
     ''    @apply bg-secondary text-secondary-foreground hover:bg-secondary/80;'',
     ''  }'',
     ''  '',
     ''  .card {'',
     ''    @apply rounded-lg border bg-card text-card-foreground shadow-sm;'',
     ''  }'',
     '''',
     ''  .glass {'',
     ''    @apply backdrop-blur-md bg-white/10 border border-white/20;'',
     ''  }'',
     '''',
     ''  .gradient-text {'',
     ''    @apply bg-gradient-to-r from-purple-400 to-pink-400 bg-clip-text text-transparent;'',
     ''  }'',
     ''}'',
     '''',
     ''/* Smooth scrolling */'',
     ''html {'',
     ''  scroll-behavior: smooth;'',
     ''}'',
     '''',
     ''/* Custom scrollbar */'',
     ''::-webkit-scrollbar {'',
     ''  width: 8px;'',
     ''}'',
     '''',
     ''::-webkit-scrollbar-track {'',
     ''  background: hsl(var(--muted));'',
     ''}'',
     '''',
     ''::-webkit-scrollbar-thumb {'',
     ''  background: hsl(var(--primary));'',
     ''  border-radius: 4px;'',
     ''}'',
     '''',
     ''::-webkit-scrollbar-thumb:hover {'',
     ''  background: hsl(var(--primary) / 0.8);'',
     ''}'']\<close>

text \<open>The literal \<^verbatim>\<open>layout_content\<close> of \<^verbatim>\<open>create_layout_file\<close>.\<close>

definition layout_content :: string where
  \<open>layout_content = unlines
    [(''import type { Metadata } from 'next'' @ [CHR 0x27]),
     (''import { Inter } from 'next/font/google'' @ [CHR 0x27]),
     (''import './globals.css'' @ [CHR 0x27]),
     '''',
     ''const inter = Inter({ subsets: ['latin'] })'',
     '''',
     ''export const metadata: Metadata = {'',
     ''  title: 'Generated Website','',
     ''  description: 'AI-generated website using Next.js and Tailwind CSS','',
     ''  viewport: 'width=device-width, initial-scale=1','',
     ''}'',
     '''',
     ''export default function RootLayout({'',
     ''  children,'',
     ''}: {'',
     ''  children: React.ReactNode'',
     ''}) {'',
     ''  return ('',
     ''    <html lang="en">'',
     ''      <body className={inter.className}>{children}</body>'',
     ''    </html>'',
     ''  )'',
     ''}'']\<close>

text \<open>The literal \<^verbatim>\<open>gitignore_content\<close> of \<^verbatim>\<open>create_gitignore\<close>.\<close>

definition gitignore_content :: string where
  \<open>gitignore_content = unlines
    [''# Dependencies'',
     ''/node_modules'',
     ''/.pnp'',
     ''.pnp.js'',
     ''.yarn/install-state.gz'',
     '''',
     ''# Testing'',
     ''/coverage'',
     '''',
     ''# Next.js'',
     ''/.next/'',
     ''/out/'',
     '''',
     ''# Production'',
     ''/build'',
     '''',
     ''# Misc'',
     ''.DS_Store'',
     ''*.pem'',
     '''',
     ''# Debug'',
     ''npm-debug.log*'',
     ''yarn-debug.log*'',
     ''yarn-error.log*'',
     '''',
     ''# Local env files'',
     ''.env*.local'',
     ''.env'',
     '''',
     ''# Vercel'',
     ''.vercel'',
     '''',
     ''# TypeScript'',
     ''*.tsbuildinfo'',
     ''next-env.d.ts'',
     '''',
     ''# IDE'',
     ''.vscode/'',
     ''.idea/'',
     ''*.swp'',
     ''*.swo'']\<close>

text \<open>The f-string \<^verbatim>\<open>readme_content\<close> of \<^verbatim>\<open>create_readme\<close>: the project name is
  interpolated into the first line, the rest is literal.\<close>

definition readme_content :: "string \<Rightarrow> string" where
  \<open>readme_content name = unlines
    ((''# '' @ name) #
    ['''',
     ''This is a Next.js project generated by the AI Text-to-Website Generator.'',
     '''',
     ''## Getting Started'',
     '''',
     ''First, install dependencies:'',
     '''',
     ''```bash'',
     ''npm install'',
     ''# or'',
     ''yarn install'',
     ''# or'',
     ''pnpm install'',
     ''```'',
     '''',
     ''Then, run the development server:'',
     '''',
     ''```bash'',
     ''npm run dev'',
     ''# or'',
     ''yarn dev'',
     ''# or'',
     ''pnpm dev'',
     ''```'',
     '''',
     ''Open [http://localhost:3000](http://localhost:3000) with your browser to see the result.'',
     '''',
     ''## Technologies Used'',
     '''',
     ''- **Next.js 15** - React framework with App Router'',
     ''- **TypeScript** - Type-safe JavaScript'',
     ''- **Tailwind CSS** - Utility-first CSS framework'',
     ''- **ESLint** - Code linting'',
     '''',
     ''## Learn More'',
     '''',
     ''To learn more about Next.js, take a look at the following resources:'',
     '''',
     ''- [Next.js Documentation](https://nextjs.org/docs) - learn about Next.js features and API.'',
     ''- [Learn Next.js](https://nextjs.org/learn) - an interactive Next.js tutorial.'',
     '''',
     ''## Deploy on Vercel'',
     '''',
     ''The easiest way to deploy your Next.js app is to use the [Vercel Platform](https://vercel.com/new?utm_medium=default-template&filter=next.js&utm_source=create-next-app&utm_campaign=create-next-app-readme) from the creators of Next.js.'',
     '''',
     ''Check out our [Next.js deployment documentation](https://nextjs.org/docs/deployment) for more details.''])\<close>

text \<open>\<^verbatim>\<open>create_system_prompt\<close>: a literal; its last line has no newline after it.\<close>

definition create_system_prompt :: string where
  \<open>create_system_prompt = join_char CHR 0x0A
    [''You are an expert Next.js 14+ developer specializing in creating modern, responsive websites using the App Router.'',
     '''',
     ''CRITICAL REQUIREMENTS:'',
     ''1. Generate clean, production-ready Next.js/React code for Next.js 14+ App Router'',
     ''2. Use TypeScript and Tailwind CSS'',
     ''3. Output ONLY the code - NO explanations, NO markdown formatting'',
     ''4. Always add 'use client'; directive at the top if using ANY client-side features (useState, useEffect, event handlers, etc.)'',
     ''5. Never use next/head in App Router - metadata should be handled in layout.tsx'',
     ''6. Create beautiful, modern UI with proper styling'',
     ''7. Ensure responsive design (mobile-first)'',
     ''8. Use React hooks and best practices'',
     ''9. Include proper imports and exports'',
     '''',
     ''NEXT.JS APP ROUTER RULES:'',
     ''- Components are Server Components by default'',
     ''- Add 'use client'; at the very top if using: useState, useEffect, onClick, onChange, onSubmit, etc.'',
     ''- Don't use next/head - use metadata export in layout files instead'',
     ''- Use proper TypeScript interfaces'',
     ''- Follow App Router conventions'',
     '''',
     ''STYLING GUIDELINES:'',
     ''- Use Tailwind CSS for all styling'',
     ''- Create beautiful gradients and modern colors'',
     ''- Include hover effects and transitions'',
     ''- Use proper spacing and typography'',
     ''- Make it visually appealing and professional'',
     ''- Use modern design patterns (glassmorphism, subtle animations)'',
     '''',
     ''OUTPUT FORMAT:'',
     ''Generate a complete Next.js page component with:'',
     ''1. 'use client'; directive if needed (VERY IMPORTANT)'',
     ''2. All necessary imports'',
     ''3. TypeScript interfaces if needed'',
     ''4. Functional component with hooks (if client-side)'',
     ''5. Beautiful JSX with Tailwind classes'',
     ''6. Responsive design'',
     ''7. Modern UI elements'',
     ''8. Proper error handling for forms'',
     '''',
     ''EXAMPLE STRUCTURE:'',
     ''```typescript'',
     ([CHR 0x27] @ ''use client'; // Only if using client-side features''),
     '''',
     ''import { useState } from 'react';'',
     '''',
     ''export default function HomePage() {'',
     ''  // Component logic here'',
     ''  return ('',
     ''    <div>'',
     ''      {/* JSX here */}'',
     ''    </div>'',
     ''  );'',
     ''}'',
     ''```'',
     '''',
     ''Remember: Output ONLY the React component code, no explanations, no markdown formatting.'']\<close>

text \<open>\<^verbatim>\<open>json.dump(package_json, f, indent=2)\<close> of \<^verbatim>\<open>create_package_json\<close>: the dictionary is
  literal except for the value of \<^verbatim>\<open>"name"\<close>, the project name, which is written as a JSON string;
  there is no newline after the closing brace.\<close>

definition package_json :: "string \<Rightarrow> string" where
  \<open>package_json name = join_char CHR 0x0A
    [''{'',
     (''  "name": '' @ json_string name @ '',''),
     ''  "version": "0.1.0",'',
     ''  "private": true,'',
     ''  "scripts": {'',
     ''    "dev": "next dev",'',
     ''    "build": "next build",'',
     ''    "start": "next start",'',
     ''    "lint": "next lint"'',
     ''  },'',
     ''  "dependencies": {'',
     ''    "react": "^18.3.1",'',
     ''    "react-dom": "^18.3.1",'',
     ''    "next": "^15.0.3",'',
     ''    "@types/node": "^22.0.0",'',
     ''    "@types/react": "^18.3.12",'',
     ''    "@types/react-dom": "^18.3.1",'',
     ''    "typescript": "^5.6.0",'',
     ''    "tailwindcss": "^3.4.14",'',
     ''    "autoprefixer": "^10.4.20",'',
     ''    "postcss": "^8.4.47",'',
     ''    "eslint": "^9.0.0",'',
     ''    "eslint-config-next": "^15.0.3",'',
     ''    "@eslint/config-array": "^0.18.0",'',
     ''    "@eslint/object-schema": "^2.1.4"'',
     ''  },'',
     ''  "devDependencies": {'',
     ''    "@eslint/js": "^9.0.0",'',
     ''    "globals": "^15.0.0"'',
     ''  }'',
     ''}'']\<close>

text \<open>\<^verbatim>\<open>json.dump(ts_config, f, indent=2)\<close> of \<^verbatim>\<open>create_typescript_config\<close>, a literal dictionary.\<close>

definition ts_config :: string where
  \<open>ts_config = join_char CHR 0x0A
    [''{'',
     ''  "compilerOptions": {'',
     ''    "target": "ES2017",'',
     ''    "lib": ['',
     ''      "dom",'',
     ''      "dom.iterable",'',
     ''      "ES6"'',
     ''    ],'',
     ''    "allowJs": true,'',
     ''    "skipLibCheck": true,'',
     ''    "strict": true,'',
     ''    "noEmit": true,'',
     ''    "esModuleInterop": true,'',
     ''    "module": "esnext",'',
     ''    "moduleResolution": "bundler",'',
     ''    "resolveJsonModule": true,'',
     ''    "isolatedModules": true,'',
     ''    "jsx": "preserve",'',
     ''    "incremental": true,'',
     ''    "plugins": ['',
     ''      {'',
     ''        "name": "next"'',
     ''      }'',
     ''    ],'',
     ''    "baseUrl": ".",'',
     ''    "paths": {'',
     ''      "@/*": ['',
     ''        "./src/*"'',
     ''      ]'',
     ''    }'',
     ''  },'',
     ''  "include": ['',
     ''    "next-env.d.ts",'',
     ''    "**/*.ts",'',
     ''    "**/*.tsx",'',
     ''    ".next/types/**/*.ts"'',
     ''  ],'',
     ''  "exclude": ['',
     ''    "node_modules"'',
     ''  ]'',
     ''}'']\<close>

text \<open>\<^verbatim>\<open>json.dump(eslint_config, f, indent=2)\<close> of \<^verbatim>\<open>create_eslint_config\<close>, a literal dictionary.\<close>

definition eslint_config :: string where
  \<open>eslint_config = join_char CHR 0x0A
    [''{'',
     ''  "extends": ['',
     ''    "next/core-web-vitals",'',
     ''    "next/typescript"'',
     ''  ],'',
     ''  "rules": {'',
     ''    "@typescript-eslint/no-unused-vars": "warn",'',
     ''    "react-hooks/exhaustive-deps": "warn"'',
     ''  }'',
     ''}'']\<close>

subsection \<open>\<^verbatim>\<open>generate_website_code\<close>\<close>

definition fence :: string where
  "fence = ''```''"

text \<open>Lines 113 to 119, the clean-up of markdown formatting. \<^verbatim>\<open>lines[0]\<close> exists, since
  \<^verbatim>\<open>split\<close> never returns the empty list.\<close>

definition strip_fences :: "string \<Rightarrow> string" where
  "strip_fences generated_code =
     (if startswith generated_code fence then
        (let lines = split_char CHR 0x0A generated_code;
             lines = (case lines of [] \<Rightarrow> []
                      | l # rest \<Rightarrow> if startswith l fence then rest else l # rest);
             lines = (if lines \<noteq> [] \<and> startswith (last lines) fence then butlast lines else lines)
         in join_char CHR 0x0A lines)
      else generated_code)"

definition client_features :: "string list" where
  "client_features =
     [''useState'', ''useEffect'', ''onClick'', ''onChange'', ''onSubmit'', ''onFocus'', ''onBlur'']"

text \<open>The string the test for an existing directive looks for, \<^verbatim>\<open>'use client'\<close> with its
  quotes, and the string that is put in front.\<close>

definition use_client_literal :: string where
  "use_client_literal = CHR 0x27 # ''use client'' @ [CHR 0x27]"

definition use_client_directive :: string where
  "use_client_directive = CHR 0x27 # ''use client';\<newline>\<newline>''"

text \<open>Lines 121 to 124.\<close>

definition add_use_client :: "string \<Rightarrow> string" where
  "add_use_client generated_code =
     (if list_ex (contains generated_code) client_features
         \<and> \<not> startswith generated_code use_client_literal
      then use_client_directive @ generated_code else generated_code)"

text \<open>Lines 110 to 124: what becomes of the content of the first choice.\<close>

definition postprocess :: "string \<Rightarrow> string" where
  "postprocess content = add_use_client (strip_fences (py_strip content))"

definition completion_request :: "generator \<Rightarrow> string \<Rightarrow> request" where
  "completion_request g text_input =
     \<lparr>api_key_sent = openai_api_key (config g),
      model = ''gpt-4-turbo-2024-04-09'',
      system_content = create_system_prompt,
      user_content = ''Create a Next.js App Router page component for: '' @ text_input
        @ ''. Make it modern, beautiful, and fully functional. Include proper client-side interactivity if needed.'',
      max_tokens = 4000\<rparr>"

text \<open>
  The body of the \<^verbatim>\<open>try\<close>: the request is sent; the client may raise;
  \<^verbatim>\<open>choices[0]\<close> raises on an empty list and \<^verbatim>\<open>.strip()\<close> on \<^verbatim>\<open>None\<close>. The handler
  logs the exception and raises it again.
\<close>

definition read_reply :: "reply \<Rightarrow> exn + string" where
  "read_reply r =
     (case r of
        Inl NoConnection \<Rightarrow> Inl APIConnectionError
      | Inl (BadStatus n) \<Rightarrow> Inl (APIStatusError n)
      | Inr [] \<Rightarrow> Inl IndexError
      | Inr (None # _) \<Rightarrow> Inl AttributeError
      | Inr (Some content # _) \<Rightarrow> Inr (postprocess content))"

definition generate_website_code ::
    "generator \<Rightarrow> service \<Rightarrow> string \<Rightarrow> world \<Rightarrow> (exn + string) \<times> world" where
  "generate_website_code g srv text_input w =
     (let req = completion_request g text_input;
          w1 = w\<lparr>requests := requests w @ [req]\<rparr>
      in case read_reply (srv req) of
           Inl e \<Rightarrow> (Inl e, logger_error_exn ''Error generating code: '' e w1)
         | Inr generated_code \<Rightarrow> (Inr generated_code, w1))"

subsection \<open>The materializer\<close>

text \<open>The loop over \<^verbatim>\<open>directories\<close>.\<close>

fun mkdir_all :: "path list \<Rightarrow> filesystem \<Rightarrow> exn option \<times> filesystem" where
  "mkdir_all [] fs = (None, fs)"
| "mkdir_all (d # ds) fs =
     (case path_mkdir True True d fs of
        (Some e, fs') \<Rightarrow> (Some e, fs')
      | (None, fs') \<Rightarrow> mkdir_all ds fs')"

definition directories :: "path \<Rightarrow> path list" where
  "directories pp =
     [pp, joinpath pp ''src'', joinpath (joinpath pp ''src'') ''app'',
      joinpath (joinpath pp ''src'') ''components'', joinpath pp ''public'']"

definition create_project_structure :: "generator \<Rightarrow> world \<Rightarrow> bool \<times> world" where
  "create_project_structure g w =
     (let w1 = logger_info ''Creating project structure...'' w;
          pp = project_path g;
          (e1, fs1) = (if path_exists (files w1) pp then rmtree pp (files w1) else (None, files w1));
          (e2, fs2) = (case e1 of Some e \<Rightarrow> (Some e, fs1) | None \<Rightarrow> mkdir_all (directories pp) fs1);
          w2 = w1\<lparr>files := fs2\<rparr>
      in case e2 of
           None \<Rightarrow> (True, logger_info ''Project structure created successfully'' w2)
         | Some e \<Rightarrow> (False, logger_error_exn ''Error creating project structure: '' e w2))"

text \<open>The shape every \<^verbatim>\<open>create_...\<close> file method has: write one file inside \<^verbatim>\<open>try\<close>,
  return \<^verbatim>\<open>True\<close>; the handler logs and returns \<^verbatim>\<open>False\<close>.\<close>

definition write_file :: "path \<Rightarrow> string \<Rightarrow> string \<Rightarrow> world \<Rightarrow> bool \<times> world" where
  "write_file p text msg w =
     (case write_text p text (files w) of
        Inr fs' \<Rightarrow> (True, w\<lparr>files := fs'\<rparr>)
      | Inl e \<Rightarrow> (False, logger_error_exn msg e w))"

text \<open>A step that succeeded and then logs at level info.\<close>

definition then_info :: "string \<Rightarrow> bool \<times> world \<Rightarrow> bool \<times> world" where
  "then_info msg r = (if fst r then (True, logger_info msg (snd r)) else r)"

definition create_package_json :: "generator \<Rightarrow> world \<Rightarrow> bool \<times> world" where
  "create_package_json g w =
     then_info ''package.json created with updated dependencies''
       (write_file (joinpath (project_path g) ''package.json'')
          (package_json (project_name (config g))) ''Error creating package.json: '' w)"

definition create_next_config :: "generator \<Rightarrow> world \<Rightarrow> bool \<times> world" where
  "create_next_config g w =
     write_file (joinpath (project_path g) ''next.config.js'') next_config
       ''Error creating next.config.js: '' w"

definition create_tailwind_config :: "generator \<Rightarrow> world \<Rightarrow> bool \<times> world" where
  "create_tailwind_config g w =
     write_file (joinpath (project_path g) ''tailwind.config.js'') tailwind_config
       ''Error creating tailwind.config.js: '' w"

definition create_postcss_config :: "generator \<Rightarrow> world \<Rightarrow> bool \<times> world" where
  "create_postcss_config g w =
     write_file (joinpath (project_path g) ''postcss.config.js'') postcss_config
       ''Error creating postcss.config.js: '' w"

definition create_typescript_config :: "generator \<Rightarrow> world \<Rightarrow> bool \<times> world" where
  "create_typescript_config g w =
     write_file (joinpath (project_path g) ''tsconfig.json'') ts_config
       ''Error creating tsconfig.json: '' w"

definition create_globals_css :: "generator \<Rightarrow> world \<Rightarrow> bool \<times> world" where
  "create_globals_css g w =
     write_file (joinpath (joinpath (joinpath (project_path g) ''src'') ''app'') ''globals.css'')
       globals_css ''Error creating globals.css: '' w"

definition create_layout_file :: "generator \<Rightarrow> world \<Rightarrow> bool \<times> world" where
  "create_layout_file g w =
     write_file (joinpath (joinpath (joinpath (project_path g) ''src'') ''app'') ''layout.tsx'')
       layout_content ''Error creating layout.tsx: '' w"

definition create_page_file :: "generator \<Rightarrow> string \<Rightarrow> world \<Rightarrow> bool \<times> world" where
  "create_page_file g generated_code w =
     then_info ''Main page created successfully''
       (write_file (joinpath (joinpath (joinpath (project_path g) ''src'') ''app'') ''page.tsx'')
          generated_code ''Error creating page.tsx: '' w)"

definition create_eslint_config :: "generator \<Rightarrow> world \<Rightarrow> bool \<times> world" where
  "create_eslint_config g w =
     write_file (joinpath (project_path g) ''.eslintrc.json'') eslint_config
       ''Error creating .eslintrc.json: '' w"

definition create_gitignore :: "generator \<Rightarrow> world \<Rightarrow> bool \<times> world" where
  "create_gitignore g w =
     write_file (joinpath (project_path g) ''.gitignore'') gitignore_content
       ''Error creating .gitignore: '' w"

definition create_readme :: "generator \<Rightarrow> world \<Rightarrow> bool \<times> world" where
  "create_readme g w =
     write_file (joinpath (project_path g) ''README.md'') (readme_content (project_name (config g)))
       ''Error creating README.md: '' w"

subsection \<open>\<^verbatim>\<open>generate_website\<close>\<close>

text \<open>\<^verbatim>\<open>if not step(): return False\<close>, one step after the other: the first step that
  returns \<^verbatim>\<open>False\<close> ends the run with the world as that step left it.\<close>

fun run_steps :: "(world \<Rightarrow> bool \<times> world) list \<Rightarrow> world \<Rightarrow> bool \<times> world" where
  "run_steps [] w = (True, w)"
| "run_steps (step # steps) w =
     (case step w of (False, w') \<Rightarrow> (False, w') | (True, w') \<Rightarrow> run_steps steps w')"

definition info_step :: "string \<Rightarrow> world \<Rightarrow> bool \<times> world" where
  "info_step msg w = (True, logger_info msg w)"

text \<open>Steps 2 to 4 of \<^verbatim>\<open>generate_website\<close> and its closing log lines, in the order of
  the source.\<close>

definition materialize_steps :: "generator \<Rightarrow> string \<Rightarrow> (world \<Rightarrow> bool \<times> world) list" where
  "materialize_steps g generated_code =
     [create_project_structure g,
      info_step ''Creating configuration files...'',
      create_package_json g,
      create_next_config g,
      create_tailwind_config g,
      create_postcss_config g,
      create_typescript_config g,
      create_eslint_config g,
      create_gitignore g,
      create_readme g,
      info_step ''Creating app files...'',
      create_globals_css g,
      create_layout_file g,
      create_page_file g generated_code,
      info_step ''Website generation completed successfully!'',
      info_step (''Project location: '' @ path_str (project_path g)),
      info_step ''To run the project:'',
      info_step (''  cd '' @ path_str (project_path g)),
      info_step ''  npm install'',
      info_step ''  npm run dev'']"

text \<open>Step 1 raises when the generation fails; the handler of \<^verbatim>\<open>generate_website\<close> logs
  and returns \<^verbatim>\<open>False\<close>.\<close>

definition generate_website :: "generator \<Rightarrow> service \<Rightarrow> string \<Rightarrow> world \<Rightarrow> bool \<times> world" where
  "generate_website g srv text_input w =
     (let w1 = logger_info ''Starting direct website generation...'' w;
          w2 = logger_info ''Generating code with GPT-4...'' w1
      in case generate_website_code g srv text_input w2 of
           (Inl e, w3) \<Rightarrow> (False, logger_error_exn ''Error in website generation: '' e w3)
         | (Inr generated_code, w3) \<Rightarrow> run_steps (materialize_steps g generated_code) w3)"

section \<open>\<^verbatim>\<open>main\<close>\<close>

text \<open>The parsed command line; \<^verbatim>\<open>--api-key\<close> has no default.\<close>

record args =
  arg_input :: string
  arg_output_dir :: string
  arg_project_name :: string
  arg_api_key :: "string option"

text \<open>How \<^verbatim>\<open>main\<close> ends: it returns, and the process exits with status 0, or an
  exception leaves it, and the interpreter exits with status 1.\<close>

datatype outcome = Returned | Raised exn


text \<open>\<^verbatim>\<open>args.api_key or os.getenv("OPENAI_API_KEY")\<close>: the flag when it is a non-empty
  string, else the value of the environment variable.\<close>

definition get_api_key :: "args \<Rightarrow> string option \<Rightarrow> string option" where
  "get_api_key a env =
     (case arg_api_key a of
        Some k \<Rightarrow> if k \<noteq> [] then Some k else env
      | None \<Rightarrow> env)"

text \<open>Lines 769 and 770.\<close>

definition clean_project_name :: "string \<Rightarrow> string" where
  "clean_project_name name =
     replace_char CHR ''_'' CHR ''-'' (replace_char CHR '' '' CHR ''-'' (py_lower name))"

text \<open>The input text: the text of the file when \<^verbatim>\<open>--input\<close> names one (reading it is not
  inside any \<^verbatim>\<open>try\<close>), else the argument itself.\<close>

definition read_input :: "args \<Rightarrow> world \<Rightarrow> exn + string" where
  "read_input a w =
     (if os_path_isfile (files w) (arg_input a) then open_read (files w) (arg_input a)
      else Inr (arg_input a))"

text \<open>The \<^verbatim>\<open>print\<close> calls at the end of \<^verbatim>\<open>main\<close>, outside every \<^verbatim>\<open>try\<close>: the first line
  of either banner has an emoji in it, and \<^verbatim>\<open>print\<close> raises before anything is written
  when standard output cannot encode it.\<close>

definition print_banner :: "banner \<Rightarrow> world \<Rightarrow> exn + world" where
  "print_banner b w =
     (if stdout_utf8 w then Inr (w\<lparr>stdout := stdout w @ [b]\<rparr>) else Inl UnicodeEncodeError)"

definition main :: "args \<Rightarrow> string option \<Rightarrow> service \<Rightarrow> world \<Rightarrow> outcome \<times> world" where
  "main a env srv w =
     (case get_api_key a env of
        None \<Rightarrow> (Returned, logger_error
          ''OpenAI API key is required. Use --api-key or set OPENAI_API_KEY environment variable.'' w)
      | Some api_key \<Rightarrow>
          if api_key = [] then (Returned, logger_error
            ''OpenAI API key is required. Use --api-key or set OPENAI_API_KEY environment variable.'' w)
          else
            (case read_input a w of
               Inl e \<Rightarrow> (Raised e, w)
             | Inr text_input \<Rightarrow>
                 (let name = clean_project_name (arg_project_name a);
                      cfg = \<lparr>project_name = name, output_dir = arg_output_dir a,
                              openai_api_key = api_key\<rparr>;
                      gen = DirectWebsiteGenerator cfg;
                      (success, w') = generate_website gen srv text_input w;
                      b = (if success
                           then SuccessBanner (joinpath (Path (arg_output_dir a)) name)
                           else FailureBanner)
                  in case print_banner b w' of
                       Inr w'' \<Rightarrow> (Returned, w'')
                     | Inl e \<Rightarrow> (Raised e, w'))))"

section \<open>Notions of the specification\<close>

text \<open>
  The specification calls the normalized project name safe for the file system and as a
  package name, without saying what that means. In the weakest reading the name is one
  directory entry below the output directory: it is not empty, it is not \<^verbatim>\<open>.\<close> or
  \<^verbatim>\<open>..\<close>, and it has no path separator and no NUL in it.
\<close>

definition name_safe :: "string \<Rightarrow> bool" where
  "name_safe s =
     (s \<noteq> [] \<and> s \<noteq> ''.'' \<and> s \<noteq> ''..'' \<and> CHR ''/'' \<notin> set s \<and> CHR 0x00 \<notin> set s)"

text \<open>The fixed directories and files of a generated project, relative to the project
  path, as section 3 of the specification lists them.\<close>

definition expected_dirs :: "string list list" where
  "expected_dirs = [[], [''src''], [''src'', ''app''], [''src'', ''components''], [''public'']]"

definition expected_files :: "string list list" where
  "expected_files =
     [[''package.json''], [''next.config.js''], [''tailwind.config.js''], [''postcss.config.js''],
      [''tsconfig.json''], [''.eslintrc.json''], [''.gitignore''], [''README.md''],
      [''src'', ''app'', ''globals.css''], [''src'', ''app'', ''layout.tsx''],
      [''src'', ''app'', ''page.tsx'']]"

text \<open>The path of an entry of the project: the project path, extended.\<close>

definition below :: "path \<Rightarrow> string list \<Rightarrow> path" where
  "below pp r = (fst pp, snd pp @ r)"

text \<open>The files the \<^verbatim>\<open>create_...\<close> methods write, in the order in which
  \<^verbatim>\<open>generate_website\<close> calls them: the path below the project path and the text. Two
  texts take the project name of the configuration, the last one is the generated code,
  the others are literals.\<close>

definition project_files :: "string \<Rightarrow> string \<Rightarrow> (string list \<times> string) list" where
  "project_files name generated_code =
     [([''package.json''], package_json name),
      ([''next.config.js''], next_config),
      ([''tailwind.config.js''], tailwind_config),
      ([''postcss.config.js''], postcss_config),
      ([''tsconfig.json''], ts_config),
      ([''.eslintrc.json''], eslint_config),
      ([''.gitignore''], gitignore_content),
      ([''README.md''], readme_content name),
      ([''src'', ''app'', ''globals.css''], globals_css),
      ([''src'', ''app'', ''layout.tsx''], layout_content),
      ([''src'', ''app'', ''page.tsx''], generated_code)]"

text \<open>A file system with such files written into it below \<open>pp\<close>, one after the other.\<close>

definition with_files :: "path \<Rightarrow> (string list \<times> string) list \<Rightarrow> filesystem \<Rightarrow> filesystem" where
  "with_files pp entries fs = fold (\<lambda>(r, text) fs'. fs'(below pp r \<mapsto> File text)) entries fs"

section \<open>Example inputs\<close>

text \<open>A configuration, a command line and a world to run the script in: the output
  directory \<^verbatim>\<open>out\<close> exists and holds an earlier project \<^verbatim>\<open>out/site\<close> with a file of
  its own, a picture \<^verbatim>\<open>logo.png\<close> lies in the current directory, nothing has been
  sent, logged or printed yet, and standard output is UTF-8.\<close>

definition example_config :: ProjectConfig where
  "example_config = \<lparr>project_name = ''site'', output_dir = ''out'', openai_api_key = ''sk-test''\<rparr>"

definition example_generator :: generator where
  "example_generator = DirectWebsiteGenerator example_config"

definition example_args :: args where
  "example_args =
     \<lparr>arg_input = ''a landing page'', arg_output_dir = ''out'', arg_project_name = ''Site'',
      arg_api_key = Some ''sk-test''\<rparr>"

definition example_files :: filesystem where
  "example_files =
     [(Relative, [''out'']) \<mapsto> Dir,
      (Relative, [''out'', ''site'']) \<mapsto> Dir,
      (Relative, [''out'', ''site'', ''notes.txt'']) \<mapsto> File ''old'',
      (Relative, [''logo.png'']) \<mapsto> Undecodable]"

definition example_world :: world where
  "example_world =
     \<lparr>files = example_files, requests = [], log = [], stdout = [], stdout_utf8 = True\<rparr>"

text \<open>A service that answers every request with one choice of the given content.\<close>

definition answers :: "string \<Rightarrow> service" where
  "answers content = (\<lambda>req. Inr [Some content])"

text \<open>A service that is down, and one that refuses with a status.\<close>

definition unreachable :: service where
  "unreachable = (\<lambda>req. Inl NoConnection)"

definition refuses :: "nat \<Rightarrow> service" where
  "refuses status = (\<lambda>req. Inl (BadStatus status))"

section \<open>Facts about the string functions\<close>

lemma startswith_take: "startswith s p \<longleftrightarrow> take (length p) s = p"
  by (induction s p rule: startswith.induct) auto

lemma startswith_length: "startswith s p \<Longrightarrow> length p \<le> length s"
  by (induction s p rule: startswith.induct) auto

lemma startswith_append: "startswith (p @ s) p"
  by (simp add: startswith_take)

lemma startswith_appendD: "startswith s p \<Longrightarrow> \<exists>t. s = p @ t"
  by (metis append_take_drop_id startswith_take)

lemma contains_iff: "contains s sub \<longleftrightarrow> (\<exists>a b. s = a @ sub @ b)"
proof (induction s)
  case Nil
  show ?case by (cases sub) auto
next
  case (Cons c cs)
  show ?case
  proof
    assume "contains (c # cs) sub"
    then consider "startswith (c # cs) sub" | "contains cs sub" by auto
    then show "\<exists>a b. c # cs = a @ sub @ b"
    proof cases
      case 1
      then obtain t where "c # cs = sub @ t" using startswith_appendD by blast
      then have "c # cs = [] @ sub @ t" by simp
      then show ?thesis by blast
    next
      case 2
      then obtain a b where "cs = a @ sub @ b" using Cons.IH by blast
      then have "c # cs = (c # a) @ sub @ b" by simp
      then show ?thesis by blast
    qed
  next
    assume "\<exists>a b. c # cs = a @ sub @ b"
    then obtain a b where ab: "c # cs = a @ sub @ b" by blast
    show "contains (c # cs) sub"
    proof (cases a)
      case Nil
      with ab have "c # cs = sub @ b" by simp
      then have "startswith (c # cs) sub" using startswith_append [of sub b] by metis
      then show ?thesis by simp
    next
      case (Cons x a')
      with ab have "cs = a' @ sub @ b" by simp
      then have "contains cs sub" using Cons.IH by blast
      then show ?thesis by simp
    qed
  qed
qed

lemma contains_nonempty: "contains s sub \<Longrightarrow> sub \<noteq> [] \<Longrightarrow> s \<noteq> []"
  by (cases s; cases sub) auto

lemma split_char_nonempty: "split_char sep s \<noteq> []"
  by (induction s) (auto split: list.splits)

lemma join_split_char: "join_char sep (split_char sep s) = s"
proof (induction s)
  case Nil
  show ?case by simp
next
  case (Cons c cs)
  obtain l ls where sp: "split_char sep cs = l # ls"
    using split_char_nonempty [of sep cs] by (cases "split_char sep cs") auto
  show ?case
  proof (cases "c = sep")
    case True
    with Cons sp show ?thesis by simp
  next
    case False
    with Cons sp show ?thesis by (cases ls) auto
  qed
qed

lemma hd_split_startswith:
  "startswith x p \<Longrightarrow> sep \<notin> set p \<Longrightarrow> \<exists>l rest. split_char sep x = l # rest \<and> startswith l p"
proof (induction x p rule: startswith.induct)
  case (1 s)
  then show ?case using split_char_nonempty [of sep s] by (cases "split_char sep s") auto
next
  case (2 p ps)
  then show ?case by simp
next
  case (3 c cs p ps)
  then obtain l rest where "split_char sep cs = l # rest" "startswith l ps" by auto
  with 3 show ?case by auto
qed

lemma length_join_char:
  "length (join_char sep xs) = sum_list (map length xs) + (length xs - 1)"
  by (induction sep xs rule: join_char.induct) auto

lemma length_join_butlast: "length (join_char sep (butlast xs)) \<le> length (join_char sep xs)"
proof (cases xs rule: rev_cases)
  case Nil
  then show ?thesis by simp
next
  case (snoc ys y)
  then show ?thesis by (simp add: length_join_char)
qed

lemma dropWhile_all: "list_all P xs \<Longrightarrow> dropWhile P xs = []"
  by (induction xs) auto

lemma py_strip_all_space: "list_all isspace c \<Longrightarrow> py_strip c = []"
  by (simp add: py_strip_def dropWhile_all)

lemma dropWhile_keeps_infix:
  assumes "sub \<noteq> []" "\<not> P (hd sub)"
  shows "\<exists>a'. dropWhile P (a @ sub @ b) = a' @ sub @ b"
proof (cases "\<forall>x\<in>set a. P x")
  case True
  from assms obtain c cs where "sub = c # cs" "\<not> P c" by (cases sub) auto
  with True have "dropWhile P (a @ sub @ b) = [] @ sub @ b"
    by (simp add: dropWhile_append)
  then show ?thesis by blast
next
  case False
  then have "dropWhile P (a @ sub @ b) = dropWhile P a @ sub @ b"
    by (auto simp: dropWhile_append)
  then show ?thesis by blast
qed

lemma contains_py_strip:
  assumes "contains s sub" "sub \<noteq> []" "\<not> isspace (hd sub)" "\<not> isspace (last sub)"
  shows "contains (py_strip s) sub"
proof -
  from assms(1) obtain a b where "s = a @ sub @ b" by (auto simp: contains_iff)
  then obtain a' where 1: "dropWhile isspace s = a' @ sub @ b"
    using dropWhile_keeps_infix [of sub isspace a b] assms(2,3) by blast
  have "rev sub \<noteq> []" "\<not> isspace (hd (rev sub))"
    using assms(2,4) by (simp_all add: hd_rev)
  then obtain b' where "dropWhile isspace (rev b @ rev sub @ rev a') = b' @ rev sub @ rev a'"
    using dropWhile_keeps_infix [of "rev sub" isspace "rev b" "rev a'"] by blast
  with 1 have "py_strip s = a' @ sub @ rev b'"
    by (simp add: py_strip_def)
  then show ?thesis by (auto simp: contains_iff)
qed

lemma py_strip_infix: "\<exists>a b. s = a @ py_strip s @ b"
proof -
  let ?t = "dropWhile isspace s"
  have "rev (takeWhile isspace (rev ?t) @ dropWhile isspace (rev ?t)) = rev (rev ?t)"
    by (simp only: takeWhile_dropWhile_id)
  then have "rev (dropWhile isspace (rev ?t)) @ rev (takeWhile isspace (rev ?t)) = ?t"
    by (simp only: rev_append rev_rev_ident)
  then have "?t = py_strip s @ rev (takeWhile isspace (rev ?t))"
    by (simp only: py_strip_def)
  moreover have "s = takeWhile isspace s @ ?t" by simp
  ultimately have "s = takeWhile isspace s @ py_strip s @ rev (takeWhile isspace (rev ?t))"
    by metis
  then show ?thesis by blast
qed

lemma contains_py_strip_raw: "contains (py_strip s) sub \<Longrightarrow> contains s sub"
proof -
  assume "contains (py_strip s) sub"
  then obtain c d where 1: "py_strip s = c @ sub @ d" by (auto simp: contains_iff)
  obtain a b where 2: "s = a @ py_strip s @ b" using py_strip_infix by blast
  from 1 2 have "s = (a @ c) @ sub @ (d @ b)" by simp
  then show "contains s sub" unfolding contains_iff by blast
qed

lemma rev_dropWhile_rev_take: "rev (dropWhile P (rev t)) = take (length t - length (takeWhile P (rev t))) t"
  by (simp add: dropWhile_eq_drop rev_drop)

lemma hd_py_strip:
  assumes "py_strip s \<noteq> []"
  shows "\<not> isspace (hd (py_strip s))"
proof -
  let ?t = "dropWhile isspace s"
  let ?n = "length ?t - length (takeWhile isspace (rev ?t))"
  have eq: "py_strip s = take ?n ?t"
    by (simp add: py_strip_def rev_dropWhile_rev_take)
  with assms have "?t \<noteq> []" "0 < ?n" by auto
  then have "hd (py_strip s) = hd ?t" using eq by (simp add: hd_take)
  moreover have "\<not> isspace (hd ?t)" using \<open>?t \<noteq> []\<close> by (rule hd_dropWhile)
  ultimately show ?thesis by simp
qed

lemma of_char_lower_char:
  "(of_char (lower_char c) :: nat) =
     (let n = of_char c in
      if (65 \<le> n \<and> n \<le> 90) \<or> (192 \<le> n \<and> n \<le> 222 \<and> n \<noteq> 215) then n + 32 else n)"
  by (auto simp: lower_char_def Let_def)

lemma char_eq_iff_of_char: "c = d \<longleftrightarrow> (of_char c :: nat) = of_char d"
  by auto

lemma lower_char_idem: "lower_char (lower_char c) = lower_char c"
  by (simp add: char_eq_iff_of_char [of "lower_char (lower_char c)"] of_char_lower_char Let_def)

lemma lower_char_space: "lower_char c = CHR '' '' \<longleftrightarrow> c = CHR '' ''"
  by (auto simp: char_eq_iff_of_char [of _ "CHR '' ''"] of_char_lower_char Let_def)

lemma lower_char_underscore: "lower_char c = CHR ''_'' \<longleftrightarrow> c = CHR ''_''"
  by (auto simp: char_eq_iff_of_char [of _ "CHR ''_''"] of_char_lower_char Let_def)

lemma lower_char_hyphen: "lower_char CHR ''-'' = CHR ''-''"
  by (simp add: lower_char_def)

section \<open>Facts about the post-processing and the generation call\<close>

lemma strip_fences_id: "\<not> startswith s fence \<Longrightarrow> strip_fences s = s"
  by (simp add: strip_fences_def)

lemma strip_fences_shorter:
  assumes "startswith s fence"
  shows "length (strip_fences s) < length s"
proof -
  have "CHR 0x0A \<notin> set fence" by (simp add: fence_def)
  with assms obtain l rest where sp: "split_char CHR 0x0A s = l # rest" and l: "startswith l fence"
    using hd_split_startswith by blast
  have len_l: "3 \<le> length l"
    using startswith_length [OF l] by (simp add: fence_def)
  have s: "length s = length (join_char CHR 0x0A (l # rest))"
    using join_split_char [of "CHR 0x0A" s] sp by simp
  have "length (join_char CHR 0x0A rest) < length (join_char CHR 0x0A (l # rest))"
    using len_l by (cases rest) (auto simp: length_join_char)
  moreover have "length (strip_fences s) \<le> length (join_char CHR 0x0A rest)"
    using assms sp l length_join_butlast [of "CHR 0x0A" rest]
    by (simp add: strip_fences_def Let_def)
  ultimately show ?thesis using s by simp
qed

lemma strip_fences_Nil: "strip_fences [] = []"
  by (simp add: strip_fences_def fence_def)

lemma add_use_client_Nil: "add_use_client [] = []"
  by (simp add: add_use_client_def client_features_def)

lemma add_use_client_eq_iff:
  "add_use_client t = t \<longleftrightarrow> \<not> list_ex (contains t) client_features \<or> startswith t use_client_literal"
  by (simp add: add_use_client_def use_client_directive_def)

lemma has_feature_useState: "contains t ''useState'' \<Longrightarrow> list_ex (contains t) client_features"
  by (simp add: client_features_def)

lemma postprocess_all_space: "list_all isspace c \<Longrightarrow> postprocess c = []"
  by (simp add: postprocess_def py_strip_all_space strip_fences_Nil add_use_client_Nil)

lemma generate_website_code_fst:
  "fst (generate_website_code g srv t w) = read_reply (srv (completion_request g t))"
  by (simp add: generate_website_code_def Let_def split: sum.splits)

lemma generate_website_code_files:
  "files (snd (generate_website_code g srv t w)) = files w"
  by (simp add: generate_website_code_def Let_def logger_error_exn_def split: sum.splits)

lemma clean_project_name_map:
  "clean_project_name name =
     map (\<lambda>c. if c = CHR '' '' \<or> c = CHR ''_'' then CHR ''-'' else lower_char c) name"
  by (induction name)
     (auto simp: clean_project_name_def replace_char_def py_lower_def lower_char_space
        lower_char_underscore)

section \<open>Facts about paths and the file system\<close>

declare path_mkdir.simps [simp del]

lemma under_refl: "under p p"
  by (simp add: under_def)

lemma under_parent: "under q (parent p) \<Longrightarrow> under q p"
  unfolding under_def parent_def
  by (cases "snd p" rule: rev_cases) (auto simp: butlast_append take_butlast dest: arg_cong [where f = length])

lemma os_mkdir_success:
  "os_mkdir p fs = Inr fs' \<Longrightarrow> fs p = None \<and> fs' = fs(p \<mapsto> Dir) \<and> \<not> is_root p"
  by (auto simp: os_mkdir_def split: if_splits option.splits node.splits)

lemma path_mkdir_success:
  "path_mkdir par eo d fs = (None, fs') \<Longrightarrow>
     node_at fs' d = Some Dir
     \<and> (\<forall>q. fs' q = fs q \<or> (fs q = None \<and> fs' q = Some Dir \<and> under q d))"
proof (induction par eo d fs arbitrary: fs' rule: path_mkdir.induct)
  case (1 parents exist_ok p fs)
  show ?case
  proof (cases "os_mkdir p fs")
    case (Inr fs1)
    with "1.prems" have "fs' = fs1" by (simp add: path_mkdir.simps [of parents exist_ok p fs])
    with os_mkdir_success [OF Inr] show ?thesis
      by (auto simp: node_at_def under_refl)
  next
    case (Inl e)
    show ?thesis
    proof (cases "e = FileNotFoundError")
      case False
      with Inl "1.prems" have "fs' = fs" "is_dir fs p"
        by (auto simp: path_mkdir.simps [of parents exist_ok p fs] split: if_splits)
      then show ?thesis by (simp add: is_dir_def)
    next
      case True
      with Inl "1.prems" have par: "parents" "\<not> is_root p"
        by (auto simp: path_mkdir.simps [of parents exist_ok p fs] split: if_splits)
      have "path_mkdir parents exist_ok p fs =
          (case path_mkdir True True (parent p) fs of
             (Some e', fs1) \<Rightarrow> (Some e', fs1)
           | (None, fs1) \<Rightarrow> path_mkdir False exist_ok p fs1)"
        using Inl True par by (subst path_mkdir.simps) simp
      with "1.prems" obtain fs1 where
        a: "path_mkdir True True (parent p) fs = (None, fs1)" and
        b: "path_mkdir False exist_ok p fs1 = (None, fs')"
        by (auto split: prod.splits option.splits)
      from "1.IH"(1) [OF Inl True _ a] par
      have A: "\<forall>q. fs1 q = fs q \<or> (fs q = None \<and> fs1 q = Some Dir \<and> under q (parent p))"
        by simp
      from "1.IH"(2) [OF Inl True _ _ _ b] a par
      have B: "node_at fs' p = Some Dir"
        "\<forall>q. fs' q = fs1 q \<or> (fs1 q = None \<and> fs' q = Some Dir \<and> under q p)"
        by simp_all
      show ?thesis
      proof (intro conjI allI)
        show "node_at fs' p = Some Dir" by (rule B(1))
        fix q
        from A B(2) under_parent [of q p]
        show "fs' q = fs q \<or> (fs q = None \<and> fs' q = Some Dir \<and> under q p)"
          by metis
      qed
    qed
  qed
qed

lemma mkdir_all_success:
  "mkdir_all ds fs = (None, fs') \<Longrightarrow>
     (\<forall>d\<in>set ds. node_at fs' d = Some Dir)
     \<and> (\<forall>q. fs' q = fs q \<or> (fs q = None \<and> fs' q = Some Dir \<and> (\<exists>d\<in>set ds. under q d)))"
proof (induction ds arbitrary: fs)
  case Nil
  then show ?case by simp
next
  case (Cons d ds)
  from Cons.prems obtain fs1 where
    a: "path_mkdir True True d fs = (None, fs1)" and b: "mkdir_all ds fs1 = (None, fs')"
    by (auto split: prod.splits option.splits)
  note A = path_mkdir_success [OF a] and B = Cons.IH [OF b]
  have "node_at fs' d = Some Dir"
  proof (cases "is_root d")
    case True
    then show ?thesis by (simp add: node_at_def)
  next
    case False
    with A have "fs1 d = Some Dir" by (simp add: node_at_def)
    with B have "fs' d = Some Dir" by (metis option.distinct(1))
    with False show ?thesis by (simp add: node_at_def)
  qed
  moreover have "fs' q = fs q \<or> (fs q = None \<and> fs' q = Some Dir \<and> (\<exists>d'\<in>set (d # ds). under q d'))" for q
  proof -
    from A have 1: "fs1 q = fs q \<or> (fs q = None \<and> fs1 q = Some Dir \<and> under q d)" by blast
    from B have 2: "fs' q = fs1 q \<or> (fs1 q = None \<and> fs' q = Some Dir \<and> (\<exists>d'\<in>set ds. under q d'))" by blast
    from 1 2 show ?thesis by (metis list.set_intros(1,2) option.distinct(1))
  qed
  ultimately show ?case using B by auto
qed

lemma rmtree_success:
  "rmtree p fs = (None, fs1) \<Longrightarrow> \<not> is_root p \<and> fs p = Some Dir \<and> fs1 = (\<lambda>q. if under p q then None else fs q)"
  by (auto simp: rmtree_def split: if_splits option.splits node.splits)

lemma joinpath_names:
  "joinpath p ''src'' = below p [''src'']"
  "joinpath p ''app'' = below p [''app'']"
  "joinpath p ''components'' = below p [''components'']"
  "joinpath p ''public'' = below p [''public'']"
  "joinpath p ''package.json'' = below p [''package.json'']"
  "joinpath p ''next.config.js'' = below p [''next.config.js'']"
  "joinpath p ''tailwind.config.js'' = below p [''tailwind.config.js'']"
  "joinpath p ''postcss.config.js'' = below p [''postcss.config.js'']"
  "joinpath p ''tsconfig.json'' = below p [''tsconfig.json'']"
  "joinpath p ''.eslintrc.json'' = below p [''.eslintrc.json'']"
  "joinpath p ''.gitignore'' = below p [''.gitignore'']"
  "joinpath p ''README.md'' = below p [''README.md'']"
  "joinpath p ''globals.css'' = below p [''globals.css'']"
  "joinpath p ''layout.tsx'' = below p [''layout.tsx'']"
  "joinpath p ''page.tsx'' = below p [''page.tsx'']"
  by (simp_all add: joinpath_def Path_def anchor_of_def below_def)

lemma below_below: "below (below p r) s = below p (r @ s)"
  by (simp add: below_def)

lemma below_Nil: "below p [] = p"
  by (simp add: below_def)

lemma below_eq_iff: "below p r = below p s \<longleftrightarrow> r = s"
  by (simp add: below_def)

lemma under_below: "under (below p r) (below p s) \<longleftrightarrow> take (length r) s = r"
  by (auto simp: under_def below_def)

lemma under_below_self: "under p (below p r)"
  by (simp add: under_def below_def)

lemma is_root_below: "is_root (below p r) \<longleftrightarrow> is_root p \<and> r = []"
  by (simp add: is_root_def below_def)

lemma directories_below: "directories p = map (below p) expected_dirs"
  by (simp add: directories_def expected_dirs_def joinpath_names below_below below_Nil)

lemma take2: "take n [a, b] = r \<Longrightarrow> r = [] \<or> r = [a] \<or> r = [a, b]"
  by (cases n; cases "n - 1") auto

lemma take1: "take n [a] = r \<Longrightarrow> r = [] \<or> r = [a]"
  by (cases n) auto

lemma expected_dirs_prefix_closed:
  "s \<in> set expected_dirs \<Longrightarrow> take (length r) s = r \<Longrightarrow> r \<in> set expected_dirs"
  unfolding expected_dirs_def
  by (auto dest: take1 take2)

lemma expected_disjoint: "r \<in> set expected_files \<Longrightarrow> r \<notin> set expected_dirs"
  by (auto simp: expected_files_def expected_dirs_def)

section \<open>Facts about the materializer\<close>

lemmas create_defs = create_package_json_def create_next_config_def create_tailwind_config_def
  create_postcss_config_def create_typescript_config_def create_eslint_config_def
  create_gitignore_def create_readme_def create_globals_css_def create_layout_file_def
  create_page_file_def

lemma create_project_structure_success:
  assumes ok: "fst (create_project_structure g w)"
    and ex: "path_exists (files w) (project_path g)"
  shows "\<not> is_root (project_path g)"
    and "files w (project_path g) = Some Dir"
    and "files (snd (create_project_structure g w)) (below (project_path g) r) =
           (if r \<in> set expected_dirs then Some Dir else None)"
proof -
  let ?pp = "project_path g"
  obtain e1 fs1 where r: "rmtree ?pp (files w) = (e1, fs1)" by (cases "rmtree ?pp (files w)")
  obtain e2 fs2 where m: "mkdir_all (directories ?pp) fs1 = (e2, fs2)"
    by (cases "mkdir_all (directories ?pp) fs1")
  from ok ex r m have e: "e1 = None" "e2 = None"
    and f: "files (snd (create_project_structure g w)) = fs2"
    by (auto simp: create_project_structure_def Let_def logger_info_def logger_error_exn_def
        split: option.splits)
  from r e rmtree_success [of ?pp "files w" fs1]
  have nr: "\<not> is_root ?pp" and d: "files w ?pp = Some Dir"
    and fs1: "fs1 = (\<lambda>q. if under ?pp q then None else files w q)"
    by auto
  show "\<not> is_root ?pp" by (rule nr)
  show "files w ?pp = Some Dir" by (rule d)
  from m e have M: "mkdir_all (map (below ?pp) expected_dirs) fs1 = (None, fs2)"
    by (simp add: directories_below)
  note S = mkdir_all_success [OF M]
  have none: "fs1 (below ?pp r) = None" by (simp add: fs1 under_below_self)
  show "files (snd (create_project_structure g w)) (below ?pp r) =
           (if r \<in> set expected_dirs then Some Dir else None)"
  proof (cases "r \<in> set expected_dirs")
    case True
    with S have "node_at fs2 (below ?pp r) = Some Dir" by simp
    with nr have "fs2 (below ?pp r) = Some Dir" by (simp add: node_at_def is_root_below)
    with True f show ?thesis by simp
  next
    case False
    from S have "fs2 (below ?pp r) = fs1 (below ?pp r)
        \<or> (\<exists>d\<in>set (map (below ?pp) expected_dirs). under (below ?pp r) d)"
      by blast
    moreover have "\<not> (\<exists>d\<in>set (map (below ?pp) expected_dirs). under (below ?pp r) d)"
      using False expected_dirs_prefix_closed by (auto simp: under_below)
    ultimately have "fs2 (below ?pp r) = None" using none by simp
    with False f show ?thesis by simp
  qed
qed

lemma run_steps_Cons:
  "fst (run_steps (s # steps) w) \<Longrightarrow> fst (s w) \<and> run_steps (s # steps) w = run_steps steps (snd (s w))"
  by (cases "s w") (auto split: bool.splits)

lemma run_steps_files:
  assumes "list_all2 (\<lambda>s f. \<forall>w. fst (s w) \<longrightarrow> files (snd (s w)) = f (files w)) steps effs"
    and "fst (run_steps steps w)"
  shows "files (snd (run_steps steps w)) = fold (\<lambda>f x. f x) effs (files w)"
  using assms
proof (induction arbitrary: w rule: list_all2_induct)
  case Nil
  then show ?case by simp
next
  case (Cons s steps f effs)
  from run_steps_Cons [OF Cons.prems]
  have 1: "fst (s w)" and 2: "run_steps (s # steps) w = run_steps steps (snd (s w))" by simp_all
  from Cons.prems 2 have "fst (run_steps steps (snd (s w)))" by simp
  then have "files (snd (run_steps steps (snd (s w)))) = fold (\<lambda>f x. f x) effs (files (snd (s w)))"
    by (rule Cons.IH)
  with 1 2 Cons.hyps show ?case by simp
qed

lemma write_file_files:
  "fst (write_file q c m w) \<Longrightarrow> files (snd (write_file q c m w)) = (files w)(q \<mapsto> File c)"
  by (auto simp: write_file_def write_text_def split: sum.splits if_splits option.splits node.splits)

lemma then_info_files:
  "fst (then_info m r) = fst r" "files (snd (then_info m r)) = files (snd r)"
  by (simp_all add: then_info_def logger_info_def)

lemma info_step_files: "files (snd (info_step m w)) = files w"
  by (simp add: info_step_def logger_info_def)

lemma materialize_files:
  assumes ok: "fst (run_steps (materialize_steps g code) w)"
  shows "fst (create_project_structure g w)"
    and "files (snd (run_steps (materialize_steps g code) w)) =
      with_files (project_path g) (project_files (project_name (config g)) code)
        (files (snd (create_project_structure g w)))"
proof -
  let ?pp = "project_path g"
  let ?rest = "tl (materialize_steps g code)"
  have ms: "materialize_steps g code = create_project_structure g # ?rest"
    by (simp add: materialize_steps_def)
  from ok ms run_steps_Cons [of "create_project_structure g" ?rest w]
  have 1: "fst (create_project_structure g w)"
    and 2: "run_steps (materialize_steps g code) w = run_steps ?rest (snd (create_project_structure g w))"
    by simp_all
  show "fst (create_project_structure g w)" by (rule 1)
  from ok 2 have 3: "fst (run_steps ?rest (snd (create_project_structure g w)))" by simp
  let ?effs = "[\<lambda>fs. fs,
      \<lambda>fs. fs(below ?pp [''package.json''] \<mapsto> File (package_json (project_name (config g)))),
      \<lambda>fs. fs(below ?pp [''next.config.js''] \<mapsto> File next_config),
      \<lambda>fs. fs(below ?pp [''tailwind.config.js''] \<mapsto> File tailwind_config),
      \<lambda>fs. fs(below ?pp [''postcss.config.js''] \<mapsto> File postcss_config),
      \<lambda>fs. fs(below ?pp [''tsconfig.json''] \<mapsto> File ts_config),
      \<lambda>fs. fs(below ?pp [''.eslintrc.json''] \<mapsto> File eslint_config),
      \<lambda>fs. fs(below ?pp [''.gitignore''] \<mapsto> File gitignore_content),
      \<lambda>fs. fs(below ?pp [''README.md''] \<mapsto> File (readme_content (project_name (config g)))),
      \<lambda>fs. fs,
      \<lambda>fs. fs(below ?pp [''src'', ''app'', ''globals.css''] \<mapsto> File globals_css),
      \<lambda>fs. fs(below ?pp [''src'', ''app'', ''layout.tsx''] \<mapsto> File layout_content),
      \<lambda>fs. fs(below ?pp [''src'', ''app'', ''page.tsx''] \<mapsto> File code),
      \<lambda>fs. fs, \<lambda>fs. fs, \<lambda>fs. fs, \<lambda>fs. fs, \<lambda>fs. fs, \<lambda>fs. (fs :: filesystem)]"
  have "list_all2 (\<lambda>s f. \<forall>w. fst (s w) \<longrightarrow> files (snd (s w)) = f (files w)) ?rest ?effs"
    by (simp add: materialize_steps_def create_defs then_info_files info_step_files
        write_file_files joinpath_names below_below)
  from run_steps_files [OF this 3] 2
  show "files (snd (run_steps (materialize_steps g code) w)) =
      with_files ?pp (project_files (project_name (config g)) code)
        (files (snd (create_project_structure g w)))"
    by (simp add: with_files_def project_files_def)
qed

lemma with_files_lookup:
  "with_files pp (project_files name code) fs (below pp r) =
     (case map_of (project_files name code) r of
        Some text \<Rightarrow> Some (File text)
      | None \<Rightarrow> fs (below pp r))"
  by (simp add: with_files_def project_files_def below_eq_iff)

lemma map_of_project_files_None:
  "map_of (project_files name code) r = None \<longleftrightarrow> r \<notin> set expected_files"
  by (simp add: project_files_def expected_files_def)

lemma generate_website_success:
  assumes "fst (generate_website g srv t w)"
  obtains code w3 where "read_reply (srv (completion_request g t)) = Inr code"
    and "files w3 = files w"
    and "generate_website g srv t w = run_steps (materialize_steps g code) w3"
proof (cases "read_reply (srv (completion_request g t))")
  case (Inl e)
  with assms show ?thesis
    by (simp add: generate_website_def generate_website_code_def Let_def)
next
  case (Inr code)
  let ?w3 = "(logger_info ''Generating code with GPT-4...''
      (logger_info ''Starting direct website generation...'' w))
      \<lparr>requests := requests w @ [completion_request g t]\<rparr>"
  have "files ?w3 = files w" by (simp add: logger_info_def)
  moreover have "generate_website g srv t w = run_steps (materialize_steps g code) ?w3"
    using Inr by (simp add: generate_website_def generate_website_code_def Let_def logger_info_def)
  ultimately show ?thesis using Inr that by blast
qed

lemma project_files_after_success:
  assumes ok: "fst (generate_website g srv t w)"
  obtains code fs2 where "read_reply (srv (completion_request g t)) = Inr code"
    and "files (snd (generate_website g srv t w)) =
      with_files (project_path g) (project_files (project_name (config g)) code) fs2"
    and "path_exists (files w) (project_path g) \<Longrightarrow>
      \<not> is_root (project_path g) \<and> files w (project_path g) = Some Dir
      \<and> (\<forall>r. fs2 (below (project_path g) r) = (if r \<in> set expected_dirs then Some Dir else None))"
proof -
  from ok obtain code w3 where c: "read_reply (srv (completion_request g t)) = Inr code"
    and f: "files w3 = files w"
    and r: "generate_website g srv t w = run_steps (materialize_steps g code) w3"
    by (rule generate_website_success)
  from ok r have ok3: "fst (run_steps (materialize_steps g code) w3)" by simp
  note M = materialize_files [OF ok3]
  show ?thesis
  proof (rule that [of code "files (snd (create_project_structure g w3))"])
    show "read_reply (srv (completion_request g t)) = Inr code" by (rule c)
    show "files (snd (generate_website g srv t w)) =
      with_files (project_path g) (project_files (project_name (config g)) code)
        (files (snd (create_project_structure g w3)))"
      unfolding r by (rule M(2))
    assume "path_exists (files w) (project_path g)"
    then have ex: "path_exists (files w3) (project_path g)" by (simp add: f)
    from create_project_structure_success [OF M(1) ex] f
    show "\<not> is_root (project_path g) \<and> files w (project_path g) = Some Dir
      \<and> (\<forall>r. files (snd (create_project_structure g w3)) (below (project_path g) r) =
            (if r \<in> set expected_dirs then Some Dir else None))"
      by simp
  qed
qed

lemma create_project_structure_frame:
  assumes ok: "fst (create_project_structure g w)"
  shows "files (snd (create_project_structure g w)) q = files w q
    \<or> files (snd (create_project_structure g w)) q = None
    \<or> files (snd (create_project_structure g w)) q = Some Dir"
proof (cases "path_exists (files w) (project_path g)")
  case True
  let ?pp = "project_path g"
  obtain e1 fs1 where r: "rmtree ?pp (files w) = (e1, fs1)" by (cases "rmtree ?pp (files w)")
  obtain e2 fs2 where m: "mkdir_all (directories ?pp) fs1 = (e2, fs2)"
    by (cases "mkdir_all (directories ?pp) fs1")
  from ok True r m have e: "e1 = None" "e2 = None"
    and f: "files (snd (create_project_structure g w)) = fs2"
    by (auto simp: create_project_structure_def Let_def logger_info_def logger_error_exn_def
        split: option.splits)
  from r e rmtree_success [of ?pp "files w" fs1]
  have 1: "fs1 q = files w q \<or> fs1 q = None" by auto
  from m e have "mkdir_all (directories ?pp) fs1 = (None, fs2)" by simp
  from mkdir_all_success [OF this] have "fs2 q = fs1 q \<or> fs2 q = Some Dir" by blast
  with 1 f show ?thesis by auto
next
  case False
  let ?pp = "project_path g"
  obtain e2 fs2 where m: "mkdir_all (directories ?pp) (files w) = (e2, fs2)"
    by (cases "mkdir_all (directories ?pp) (files w)")
  from ok False m have e: "e2 = None"
    and f: "files (snd (create_project_structure g w)) = fs2"
    by (auto simp: create_project_structure_def Let_def logger_info_def logger_error_exn_def
        split: option.splits)
  from m e have "mkdir_all (directories ?pp) (files w) = (None, fs2)" by simp
  from mkdir_all_success [OF this] have "fs2 q = files w q \<or> fs2 q = Some Dir" by blast
  with f show ?thesis by auto
qed

lemma with_files_other:
  "\<forall>r\<in>set (map fst entries). q \<noteq> below pp r \<Longrightarrow> with_files pp entries fs q = fs q"
  unfolding with_files_def
  by (induction entries arbitrary: fs) (auto split: prod.splits)

lemma fst_project_files: "set (map fst (project_files name code)) = set expected_files"
  by (simp add: project_files_def expected_files_def)

lemma run_steps_keeps:
  assumes "\<forall>s\<in>set steps. \<forall>w. P (snd (s w)) = P w"
  shows "P (snd (run_steps steps w)) = P w"
  using assms
proof (induction steps arbitrary: w)
  case Nil
  then show ?case by simp
next
  case (Cons s steps)
  obtain b w1 where sw: "s w = (b, w1)" by (cases "s w")
  from Cons.prems have 1: "P w1 = P w" using sw by (metis list.set_intros(1) snd_conv)
  show ?case
  proof (cases b)
    case True
    with sw have "run_steps (s # steps) w = run_steps steps w1" by simp
    moreover have "P (snd (run_steps steps w1)) = P w1" using Cons.prems by (intro Cons.IH) simp
    ultimately show ?thesis using 1 by simp
  next
    case False
    with sw 1 show ?thesis by simp
  qed
qed

lemma write_file_keeps_stdout:
  "stdout (snd (write_file q c m w)) = stdout w"
  "stdout_utf8 (snd (write_file q c m w)) = stdout_utf8 w"
  by (simp_all add: write_file_def logger_error_exn_def split: sum.splits)

lemma then_info_keeps_stdout:
  "stdout (snd (then_info m r)) = stdout (snd r)"
  "stdout_utf8 (snd (then_info m r)) = stdout_utf8 (snd r)"
  by (simp_all add: then_info_def logger_info_def)

lemma create_project_structure_keeps_stdout:
  "stdout (snd (create_project_structure g w)) = stdout w"
  "stdout_utf8 (snd (create_project_structure g w)) = stdout_utf8 w"
  by (simp_all add: create_project_structure_def Let_def logger_info_def logger_error_exn_def
      split: prod.splits option.splits)

lemma generate_website_keeps_stdout:
  "stdout (snd (generate_website g srv t w)) = stdout w"
  "stdout_utf8 (snd (generate_website g srv t w)) = stdout_utf8 w"
proof -
  have k: "(stdout (snd (run_steps (materialize_steps g code) w')), stdout_utf8 (snd (run_steps (materialize_steps g code) w')))
      = (stdout w', stdout_utf8 w')" for code w'
    by (rule run_steps_keeps [where P = "\<lambda>w. (stdout w, stdout_utf8 w)"])
       (simp add: materialize_steps_def create_defs write_file_keeps_stdout then_info_keeps_stdout
          create_project_structure_keeps_stdout info_step_def logger_info_def)
  show "stdout (snd (generate_website g srv t w)) = stdout w"
    using k by (simp add: generate_website_def generate_website_code_def Let_def logger_info_def
        logger_error_exn_def split: sum.splits)
  show "stdout_utf8 (snd (generate_website g srv t w)) = stdout_utf8 w"
    using k by (simp add: generate_website_def generate_website_code_def Let_def logger_info_def
        logger_error_exn_def split: sum.splits)
qed

section \<open>Facts about \<^verbatim>\<open>main\<close> and the example run\<close>

text \<open>The definitions a run on a given world unfolds to.\<close>

lemmas run_defs = generate_website_def generate_website_code_def read_reply_def
  materialize_steps_def create_project_structure_def
  logger_info_def logger_error_exn_def path_exists_def node_at_def is_root_def rmtree_def
  directories_def os_mkdir_def parent_def is_dir_def under_def write_file_def write_text_def
  then_info_def info_step_def create_defs joinpath_names below_def Let_def path_mkdir.simps

lemma example_project_path: "project_path example_generator = (Relative, [''out'', ''site''])"
  by (simp add: example_generator_def example_config_def DirectWebsiteGenerator_def joinpath_def
      Path_def anchor_of_def)

lemma example_run_succeeds:
  "fst (generate_website example_generator (answers content) ''a landing page'' example_world)"
  by (simp add: run_defs example_project_path example_world_def example_files_def answers_def)

lemma clean_examples:
  "clean_project_name ''Site'' = ''site''" "clean_project_name ''Shop'' = ''shop''"
  by code_simp+

lemma main_run:
  assumes "get_api_key a env = Some k" "k \<noteq> []" "read_input a w = Inr t"
  shows "main a env srv w =
    (let r = generate_website (DirectWebsiteGenerator
        \<lparr>project_name = clean_project_name (arg_project_name a), output_dir = arg_output_dir a,
         openai_api_key = k\<rparr>) srv t w
     in case print_banner
          (if fst r
           then SuccessBanner (joinpath (Path (arg_output_dir a)) (clean_project_name (arg_project_name a)))
           else FailureBanner) (snd r) of
          Inr w'' \<Rightarrow> (Returned, w'')
        | Inl e \<Rightarrow> (Raised e, snd r))"
proof -
  obtain b w' where r: "generate_website (DirectWebsiteGenerator
        \<lparr>project_name = clean_project_name (arg_project_name a), output_dir = arg_output_dir a,
         openai_api_key = k\<rparr>) srv t w = (b, w')"
    by (cases "generate_website (DirectWebsiteGenerator
        \<lparr>project_name = clean_project_name (arg_project_name a), output_dir = arg_output_dir a,
         openai_api_key = k\<rparr>) srv t w")
  show ?thesis
    using assms by (simp add: main_def Let_def r split: sum.splits)
qed


lemma example_read_input:
  "arg_input a = ''a landing page'' \<Longrightarrow> files w = example_files \<Longrightarrow>
   read_input a w = Inr ''a landing page''"
  by (simp add: read_input_def os_path_isfile_def os_lookup_def os_node_def example_files_def)

lemma example_main_run:
  "arg_api_key a = Some ''sk-test'' \<Longrightarrow> arg_input a = ''a landing page'' \<Longrightarrow>
   main a None srv example_world =
    (let r = generate_website (DirectWebsiteGenerator
        \<lparr>project_name = clean_project_name (arg_project_name a), output_dir = arg_output_dir a,
         openai_api_key = ''sk-test''\<rparr>) srv ''a landing page'' example_world
     in (Returned, (snd r)\<lparr>stdout := stdout (snd r) @
          [if fst r
           then SuccessBanner (joinpath (Path (arg_output_dir a)) (clean_project_name (arg_project_name a)))
           else FailureBanner]\<rparr>))"
proof -
  assume k: "arg_api_key a = Some ''sk-test''" and i: "arg_input a = ''a landing page''"
  have 1: "get_api_key a None = Some ''sk-test''" using k by (simp add: get_api_key_def)
  have 2: "read_input a example_world = Inr ''a landing page''"
    using i by (rule example_read_input) (simp add: example_world_def)
  have 3: "stdout_utf8 example_world" by (simp add: example_world_def)
  show ?thesis
    unfolding main_run [OF 1 _ 2, simplified]
    using 3 by (simp add: Let_def print_banner_def generate_website_keeps_stdout)
qed

lemma example_args_key:
  "arg_api_key example_args = Some ''sk-test''"
  "arg_api_key (example_args\<lparr>arg_project_name := n\<rparr>) = Some ''sk-test''"
  by (simp_all add: example_args_def)

lemma example_args_input:
  "arg_input example_args = ''a landing page''"
  "arg_input (example_args\<lparr>arg_project_name := n\<rparr>) = ''a landing page''"
  by (simp_all add: example_args_def)

section \<open>The generation call\<close>

text \<open>
  Claim C1, as amended. \<^verbatim>\<open>generate_website_code\<close> fails with an error whenever the client
  raises (the network call fails, or the service answers with a status that is not a
  success), and also when the response has no choice or the content of its first choice
  is \<^verbatim>\<open>None\<close>. When the content is a string that is empty or all white space, the call
  returns normally, with the empty module text.
\<close>

theorem generate_website_code_failures:
  "(srv (completion_request g t) = Inl f \<longrightarrow>
      (\<exists>e. fst (generate_website_code g srv t w) = Inl e))
   \<and> (srv (completion_request g t) = Inr [] \<longrightarrow>
      fst (generate_website_code g srv t w) = Inl IndexError)
   \<and> (srv (completion_request g t) = Inr (None # cs) \<longrightarrow>
      fst (generate_website_code g srv t w) = Inl AttributeError)
   \<and> (srv (completion_request g t) = Inr (Some c # cs) \<and> list_all isspace c \<longrightarrow>
      fst (generate_website_code g srv t w) = Inr [])"
  by (cases f) (simp_all add: generate_website_code_fst read_reply_def postprocess_all_space)

text \<open>The amended claim at a service that refuses with status 500, and at one that
  answers with two blanks.\<close>

theorem generate_website_code_failures_witness:
  "(\<exists>e. fst (generate_website_code example_generator (refuses 500) ''a landing page'' example_world) = Inl e)
   \<and> fst (generate_website_code example_generator (answers ''  '') ''a landing page'' example_world) = Inr []"
proof -
  have "\<exists>e. fst (generate_website_code example_generator (refuses 500) ''a landing page'' example_world) = Inl e"
    using generate_website_code_failures
      [of "refuses 500" example_generator "''a landing page''" "BadStatus 500" example_world]
    by (simp add: refuses_def)
  moreover have "fst (generate_website_code example_generator (answers ''  '') ''a landing page'' example_world) = Inr []"
    using generate_website_code_failures
      [of "answers ''  ''" example_generator "''a landing page''" _ example_world "[]" "''  ''"]
    by (simp add: answers_def isspace_def)
  ultimately show ?thesis by blast
qed

text \<open>Claim C1 as the specification states it fails: on empty content the call returns
  normally, and what it returns is the empty text.\<close>

theorem generate_website_code_empty_content:
  "fst (generate_website_code example_generator (answers '''') ''a landing page'' example_world) = Inr ''''"
  by (simp add: generate_website_code_fst answers_def read_reply_def postprocess_def py_strip_def
      strip_fences_def fence_def add_use_client_def client_features_def)

section \<open>The client directive\<close>

text \<open>
  Claim C2, as amended. For every raw model output whose processed text (the output
  trimmed and then stripped of its fences) contains \<^verbatim>\<open>useState\<close> and does not start
  with the single-quoted literal \<^verbatim>\<open>'use client'\<close>, the final output of
  \<^verbatim>\<open>generate_website_code\<close> is the directive \<^verbatim>\<open>'use client';\<close>, one blank line, and then
  the processed text. When the trimmed text is not fenced, the processed text is the
  trimmed text and does not begin with a newline, so that exactly one blank line follows
  the directive; and trimming neither adds nor removes an occurrence of \<^verbatim>\<open>useState\<close>.
\<close>

theorem use_client_added_to_processed_output:
  assumes reply: "srv (completion_request g t) = Inr (Some raw # cs)"
    and marker: "contains (strip_fences (py_strip raw)) ''useState''"
    and fresh: "\<not> startswith (strip_fences (py_strip raw)) use_client_literal"
  shows "fst (generate_website_code g srv t w)
      = Inr (use_client_directive @ strip_fences (py_strip raw))
    \<and> (\<not> startswith (py_strip raw) fence \<longrightarrow>
          strip_fences (py_strip raw) = py_strip raw \<and> hd (py_strip raw) \<noteq> CHR 0x0A)
    \<and> (contains (py_strip raw) ''useState'' \<longleftrightarrow> contains raw ''useState'')"
proof -
  have "postprocess raw = use_client_directive @ strip_fences (py_strip raw)"
    using fresh has_feature_useState [OF marker]
    by (simp add: postprocess_def add_use_client_def)
  then have 1: "fst (generate_website_code g srv t w)
      = Inr (use_client_directive @ strip_fences (py_strip raw))"
    using reply by (simp add: generate_website_code_fst read_reply_def)
  have 2: "strip_fences (py_strip raw) = py_strip raw \<and> hd (py_strip raw) \<noteq> CHR 0x0A"
    if unfenced: "\<not> startswith (py_strip raw) fence"
  proof -
    have eq: "strip_fences (py_strip raw) = py_strip raw"
      using unfenced by (rule strip_fences_id)
    with marker have "py_strip raw \<noteq> []"
      using contains_nonempty [of "py_strip raw" "''useState''"] by simp
    then have "\<not> isspace (hd (py_strip raw))" by (rule hd_py_strip)
    then have "hd (py_strip raw) \<noteq> CHR 0x0A" by (auto simp: isspace_def)
    with eq show ?thesis by simp
  qed
  have 3: "contains (py_strip raw) ''useState'' \<longleftrightarrow> contains raw ''useState''"
  proof
    assume "contains (py_strip raw) ''useState''"
    then show "contains raw ''useState''" by (rule contains_py_strip_raw)
  next
    assume "contains raw ''useState''"
    then show "contains (py_strip raw) ''useState''"
      by (rule contains_py_strip) (simp_all add: isspace_def)
  qed
  from 1 2 3 show ?thesis by blast
qed

text \<open>The amended claim at a fenced reply: the fences go, the directive is put in front
  of the import line.\<close>

theorem use_client_added_to_processed_output_witness:
  "fst (generate_website_code example_generator
          (answers ''```tsx\<newline>import { useState } from 'react';\<newline>```\<newline>'') ''a landing page''
          example_world)
     = Inr (use_client_directive @ ''import { useState } from 'react';'')"
proof -
  have s: "strip_fences (py_strip ''```tsx\<newline>import { useState } from 'react';\<newline>```\<newline>'')
      = ''import { useState } from 'react';''"
    by (simp add: py_strip_def isspace_def strip_fences_def fence_def)
  have m: "contains (strip_fences (py_strip ''```tsx\<newline>import { useState } from 'react';\<newline>```\<newline>''))
      ''useState''"
    unfolding s by simp
  have f: "\<not> startswith (strip_fences (py_strip ''```tsx\<newline>import { useState } from 'react';\<newline>```\<newline>''))
      use_client_literal"
    unfolding s by (simp add: use_client_literal_def)
  have r: "answers ''```tsx\<newline>import { useState } from 'react';\<newline>```\<newline>''
      (completion_request example_generator ''a landing page'')
      = Inr (Some ''```tsx\<newline>import { useState } from 'react';\<newline>```\<newline>'' # [])"
    by (simp add: answers_def)
  from use_client_added_to_processed_output
    [of "answers ''```tsx\<newline>import { useState } from 'react';\<newline>```\<newline>''" example_generator
        "''a landing page''" "''```tsx\<newline>import { useState } from 'react';\<newline>```\<newline>''" "[]"
        example_world] r m f
  show ?thesis by (simp add: s)
qed

text \<open>
  Claim C2 as the specification states it fails, because the markers and the directive
  are looked for in the text after trimming and fence-stripping, not in the raw output.
  A fenced output whose code already has the directive does not start with the literal,
  contains \<^verbatim>\<open>useState\<close>, and is returned with one newline after the directive and no
  blank line; the same holds for an unfenced output with a blank before the directive.
\<close>

theorem use_client_not_added_counterexample:
  "contains ''```tsx\<newline>'use client';\<newline>useState\<newline>```'' ''useState''
   \<and> \<not> startswith ''```tsx\<newline>'use client';\<newline>useState\<newline>```'' use_client_literal
   \<and> fst (generate_website_code example_generator
          (answers ''```tsx\<newline>'use client';\<newline>useState\<newline>```'') ''a landing page'' example_world)
       = Inr (use_client_literal @ '';\<newline>useState'')
   \<and> \<not> startswith (use_client_literal @ '';\<newline>useState'') use_client_directive
   \<and> contains '' 'use client';\<newline>useState'' ''useState''
   \<and> \<not> startswith '' 'use client';\<newline>useState'' use_client_literal
   \<and> fst (generate_website_code example_generator
          (answers '' 'use client';\<newline>useState'') ''a landing page'' example_world)
       = Inr (use_client_literal @ '';\<newline>useState'')"
  by (simp add: generate_website_code_fst answers_def read_reply_def postprocess_def py_strip_def
      isspace_def strip_fences_def fence_def add_use_client_def client_features_def
      use_client_literal_def use_client_directive_def)

text \<open>
  Claim C9. The directive-insertion step puts the directive in front of texts with an
  interactivity marker only, and on such a text it skips doing so exactly when the text
  starts with the twelve characters \<^verbatim>\<open>'use client'\<close>, single quotes included and no
  semicolon. A text with a marker that begins with the directive in double quotes
  therefore gets the single-quoted directive in front, and the output carries both.
\<close>

theorem directive_test_is_single_quoted:
  "length use_client_literal = 12
   \<and> CHR '';'' \<notin> set use_client_literal
   \<and> (list_ex (contains t) client_features \<longrightarrow>
        (add_use_client t = t \<longleftrightarrow> startswith t use_client_literal))
   \<and> (list_ex (contains t) client_features \<and> startswith t (CHR 0x22 # ''use client'' @ [CHR 0x22]) \<longrightarrow>
        add_use_client t = use_client_directive @ t
        \<and> startswith (add_use_client t) (use_client_directive @ CHR 0x22 # ''use client'' @ [CHR 0x22]))"
proof -
  have 1: "length use_client_literal = 12" "CHR '';'' \<notin> set use_client_literal"
    by (simp_all add: use_client_literal_def)
  have 2: "add_use_client t = t \<longleftrightarrow> startswith t use_client_literal"
    if "list_ex (contains t) client_features"
    using that by (simp add: add_use_client_eq_iff)
  have 3: "add_use_client t = use_client_directive @ t
      \<and> startswith (add_use_client t) (use_client_directive @ CHR 0x22 # ''use client'' @ [CHR 0x22])"
    if m: "list_ex (contains t) client_features"
      and d: "startswith t (CHR 0x22 # ''use client'' @ [CHR 0x22])"
  proof -
    from d have "\<not> startswith t use_client_literal"
      by (cases t) (auto simp: use_client_literal_def)
    with m have a: "add_use_client t = use_client_directive @ t"
      by (simp add: add_use_client_def)
    from d obtain u where "t = (CHR 0x22 # ''use client'' @ [CHR 0x22]) @ u"
      using startswith_appendD by blast
    then have "use_client_directive @ t = (use_client_directive @ CHR 0x22 # ''use client'' @ [CHR 0x22]) @ u"
      by simp
    then have "startswith (use_client_directive @ t) (use_client_directive @ CHR 0x22 # ''use client'' @ [CHR 0x22])"
      using startswith_append by metis
    with a show ?thesis by simp
  qed
  from 1 2 3 show ?thesis by blast
qed

text \<open>Claim C9 at a component that starts with the double-quoted directive, and at one
  that starts with the single-quoted one without a semicolon.\<close>

theorem directive_test_is_single_quoted_witness:
  "add_use_client (CHR 0x22 # ''use client\";\<newline>const [n, setN] = useState(0)'')
     = use_client_directive @ CHR 0x22 # ''use client\";\<newline>const [n, setN] = useState(0)''
   \<and> add_use_client (use_client_literal @ ''\<newline>const [n, setN] = useState(0)'')
     = use_client_literal @ ''\<newline>const [n, setN] = useState(0)''"
proof -
  have m: "list_ex (contains (CHR 0x22 # ''use client\";\<newline>const [n, setN] = useState(0)'')) client_features"
    by (simp add: client_features_def)
  have d: "startswith (CHR 0x22 # ''use client\";\<newline>const [n, setN] = useState(0)'')
             (CHR 0x22 # ''use client'' @ [CHR 0x22])"
    by simp
  have m': "list_ex (contains (use_client_literal @ ''\<newline>const [n, setN] = useState(0)'')) client_features"
    by (simp add: client_features_def use_client_literal_def)
  have d': "startswith (use_client_literal @ ''\<newline>const [n, setN] = useState(0)'') use_client_literal"
    by (rule startswith_append)
  show ?thesis
    using directive_test_is_single_quoted [of "CHR 0x22 # ''use client\";\<newline>const [n, setN] = useState(0)''"]
      directive_test_is_single_quoted [of "use_client_literal @ ''\<newline>const [n, setN] = useState(0)''"]
      m d m' d'
    by blast
qed

section \<open>Fence stripping\<close>

text \<open>
  Claim C5, as amended. Stripping the fences a second time changes nothing exactly when
  the text left by the first pass does not itself begin with the fence delimiter: for
  every text \<open>s\<close>, \<open>strip_fences (strip_fences s) = strip_fences s\<close> holds if and only if
  \<open>strip_fences s\<close> does not start with three backquotes.
\<close>

theorem strip_fences_idempotent_iff:
  "strip_fences (strip_fences s) = strip_fences s \<longleftrightarrow> \<not> startswith (strip_fences s) fence"
proof
  assume eq: "strip_fences (strip_fences s) = strip_fences s"
  show "\<not> startswith (strip_fences s) fence"
  proof
    assume "startswith (strip_fences s) fence"
    then have "length (strip_fences (strip_fences s)) < length (strip_fences s)"
      by (rule strip_fences_shorter)
    with eq show False by simp
  qed
next
  assume "\<not> startswith (strip_fences s) fence"
  then show "strip_fences (strip_fences s) = strip_fences s" by (rule strip_fences_id)
qed

text \<open>The amended claim at a fenced component: one pass leaves the code, a second pass
  leaves it alone.\<close>

theorem strip_fences_idempotent_iff_witness:
  "strip_fences (strip_fences ''```tsx\<newline>export default 1\<newline>```'') =
     strip_fences ''```tsx\<newline>export default 1\<newline>```''
   \<and> \<not> startswith (strip_fences ''```tsx\<newline>export default 1\<newline>```'') fence"
proof -
  have "\<not> startswith (strip_fences ''```tsx\<newline>export default 1\<newline>```'') fence"
    by (simp add: strip_fences_def fence_def)
  then show ?thesis
    using strip_fences_idempotent_iff [of "''```tsx\<newline>export default 1\<newline>```''"] by blast
qed

text \<open>
  Claim C5 as the specification states it fails: a text whose second line is again a
  fence line is stripped once more by a second pass, by the fence step alone and by the
  whole post-processing (\<open>postprocess\<close>) alike.
\<close>

theorem strip_fences_not_idempotent:
  "strip_fences (strip_fences ''```\<newline>```\<newline>foo'') \<noteq> strip_fences ''```\<newline>```\<newline>foo''
   \<and> postprocess (postprocess ''```\<newline>```\<newline>foo'') \<noteq> postprocess ''```\<newline>```\<newline>foo''"
  by (simp add: strip_fences_def fence_def postprocess_def py_strip_def isspace_def
      add_use_client_def client_features_def)

section \<open>The project name\<close>

text \<open>
  Claim C7, as amended. The normalization lowercases the name and replaces every space
  and every underscore by a hyphen: \<^verbatim>\<open>"My Cool Site"\<close> becomes \<^verbatim>\<open>"my-cool-site"\<close>, the
  result has no space and no underscore and is its own lower case. Every other
  character is kept as it is, so nothing more is promised about the result.
\<close>

theorem clean_project_name_normalizes:
  "clean_project_name ''My Cool Site'' = ''my-cool-site''
   \<and> clean_project_name name =
       map (\<lambda>c. if c = CHR '' '' \<or> c = CHR ''_'' then CHR ''-'' else lower_char c) name
   \<and> CHR '' '' \<notin> set (clean_project_name name)
   \<and> CHR ''_'' \<notin> set (clean_project_name name)
   \<and> py_lower (clean_project_name name) = clean_project_name name"
proof -
  have 1: "clean_project_name ''My Cool Site'' = ''my-cool-site''"
    by code_simp
  have "x \<noteq> CHR '' '' \<and> x \<noteq> CHR ''_''" if "x \<in> set (clean_project_name name)" for x
  proof -
    from that obtain c where
      x: "x = (if c = CHR '' '' \<or> c = CHR ''_'' then CHR ''-'' else lower_char c)"
      unfolding clean_project_name_map set_map by (rule imageE)
    show ?thesis
    proof (cases "c = CHR '' '' \<or> c = CHR ''_''")
      case True
      with x show ?thesis by simp
    next
      case False
      with x show ?thesis by (simp add: lower_char_space lower_char_underscore)
    qed
  qed
  then have 2: "CHR '' '' \<notin> set (clean_project_name name)" "CHR ''_'' \<notin> set (clean_project_name name)"
    by blast+
  have 3: "py_lower (clean_project_name name) = clean_project_name name"
    by (simp add: clean_project_name_map py_lower_def lower_char_idem lower_char_hyphen)
  from 1 2 3 clean_project_name_map show ?thesis by blast
qed

text \<open>Claim C7 as the specification states it fails: slashes and dots pass through, and
  the normalized name can leave the output directory.\<close>

theorem clean_project_name_keeps_separators:
  "\<not> name_safe (clean_project_name ''../Other Site'')"
proof -
  have "clean_project_name ''../Other Site'' = ''../other-site''" by code_simp
  then show ?thesis by (simp add: name_safe_def)
qed

section \<open>The generated project\<close>

text \<open>
  Claim C3, as amended. In every successful run the generated module text is the text of
  \<^verbatim>\<open>src/app/page.tsx\<close> below the project path. Of the ten other files the run writes,
  eight hold a literal of the script, whatever the input; \<^verbatim>\<open>package.json\<close> and
  \<^verbatim>\<open>README.md\<close> hold a fixed template into which the project name of the configuration
  is put. These eleven are all the run writes: every other file and every undecodable
  file of the file system after the run was there before it, unchanged, so the generated
  text is written to exactly one path and the description to none.
\<close>

theorem generated_text_written_once:
  assumes ok: "fst (generate_website g srv t w)"
  shows "\<exists>code. fst (generate_website_code g srv t w) = Inr code
    \<and> files (snd (generate_website g srv t w)) (below (project_path g) [''src'', ''app'', ''page.tsx''])
        = Some (File code)
    \<and> files (snd (generate_website g srv t w)) (below (project_path g) [''package.json''])
        = Some (File (package_json (project_name (config g))))
    \<and> files (snd (generate_website g srv t w)) (below (project_path g) [''README.md''])
        = Some (File (readme_content (project_name (config g))))
    \<and> files (snd (generate_website g srv t w)) (below (project_path g) [''next.config.js''])
        = Some (File next_config)
    \<and> files (snd (generate_website g srv t w)) (below (project_path g) [''tailwind.config.js''])
        = Some (File tailwind_config)
    \<and> files (snd (generate_website g srv t w)) (below (project_path g) [''postcss.config.js''])
        = Some (File postcss_config)
    \<and> files (snd (generate_website g srv t w)) (below (project_path g) [''tsconfig.json''])
        = Some (File ts_config)
    \<and> files (snd (generate_website g srv t w)) (below (project_path g) [''.eslintrc.json''])
        = Some (File eslint_config)
    \<and> files (snd (generate_website g srv t w)) (below (project_path g) [''.gitignore''])
        = Some (File gitignore_content)
    \<and> files (snd (generate_website g srv t w)) (below (project_path g) [''src'', ''app'', ''globals.css''])
        = Some (File globals_css)
    \<and> files (snd (generate_website g srv t w)) (below (project_path g) [''src'', ''app'', ''layout.tsx''])
        = Some (File layout_content)
    \<and> (\<forall>q n. files (snd (generate_website g srv t w)) q = Some n \<longrightarrow>
          n = Dir \<or> q \<in> set (map (below (project_path g)) expected_files) \<or> files w q = Some n)"
proof -
  from ok obtain code w3 where c: "read_reply (srv (completion_request g t)) = Inr code"
    and f: "files w3 = files w"
    and r: "generate_website g srv t w = run_steps (materialize_steps g code) w3"
    by (rule generate_website_success)
  from ok r have ok3: "fst (run_steps (materialize_steps g code) w3)" by simp
  note M = materialize_files [OF ok3]
  let ?fs2 = "files (snd (create_project_structure g w3))"
  have F: "files (snd (generate_website g srv t w)) =
      with_files (project_path g) (project_files (project_name (config g)) code) ?fs2"
    unfolding r by (rule M(2))
  have L: "files (snd (generate_website g srv t w)) (below (project_path g) r) = Some (File x)"
    if "map_of (project_files (project_name (config g)) code) r = Some x" for r x
    using that by (simp add: F with_files_lookup)
  have B: "n = Dir \<or> q \<in> set (map (below (project_path g)) expected_files) \<or> files w q = Some n"
    if n: "files (snd (generate_website g srv t w)) q = Some n" for q n
  proof (cases "q \<in> set (map (below (project_path g)) expected_files)")
    case True
    then show ?thesis by simp
  next
    case False
    then have "\<forall>r\<in>set (map fst (project_files (project_name (config g)) code)).
        q \<noteq> below (project_path g) r"
      unfolding fst_project_files by auto
    then have "files (snd (generate_website g srv t w)) q = ?fs2 q"
      unfolding F by (rule with_files_other)
    with n have "?fs2 q = Some n" by simp
    with create_project_structure_frame [OF M(1), of q] f show ?thesis by auto
  qed
  have "fst (generate_website_code g srv t w) = Inr code"
    using c by (simp add: generate_website_code_fst)
  then show ?thesis
    using B by (intro exI [of _ code] conjI L allI impI) (simp_all add: project_files_def)
qed

text \<open>The amended claim at the example run: the page holds the code, the ignore file
  its literal, and the code is not in a second file beside the components.\<close>

theorem generated_text_written_once_witness:
  "fst (generate_website example_generator (answers ''export default 1'') ''a landing page'' example_world)
   \<and> files (snd (generate_website example_generator (answers ''export default 1'') ''a landing page''
        example_world)) (below (project_path example_generator) [''src'', ''app'', ''page.tsx''])
      = Some (File ''export default 1'')
   \<and> files (snd (generate_website example_generator (answers ''export default 1'') ''a landing page''
        example_world)) (below (project_path example_generator) [''.gitignore''])
      = Some (File gitignore_content)
   \<and> files (snd (generate_website example_generator (answers ''export default 1'') ''a landing page''
        example_world)) (below (project_path example_generator) [''src'', ''components'', ''copy.tsx''])
      \<noteq> Some (File ''export default 1'')"
proof -
  note ok = example_run_succeeds [of "''export default 1''"]
  have c: "fst (generate_website_code example_generator (answers ''export default 1'') ''a landing page''
      example_world) = Inr ''export default 1''"
    by (simp add: generate_website_code_fst answers_def read_reply_def postprocess_def py_strip_def
        isspace_def strip_fences_def fence_def add_use_client_def client_features_def)
  have n: "below (project_path example_generator) [''src'', ''components'', ''copy.tsx'']
      \<notin> set (map (below (project_path example_generator)) expected_files)"
    by (simp add: expected_files_def below_eq_iff)
  have o: "files example_world (below (project_path example_generator) [''src'', ''components'', ''copy.tsx''])
      = None"
    by (simp add: example_project_path below_def example_world_def example_files_def)
  let ?fs = "files (snd (generate_website example_generator (answers ''export default 1'')
      ''a landing page'' example_world))"
  let ?copy = "below (project_path example_generator) [''src'', ''components'', ''copy.tsx'']"
  from generated_text_written_once [OF ok] obtain code where
    code: "fst (generate_website_code example_generator (answers ''export default 1'') ''a landing page''
      example_world) = Inr code"
    and page: "?fs (below (project_path example_generator) [''src'', ''app'', ''page.tsx'']) = Some (File code)"
    and ignore: "?fs (below (project_path example_generator) [''.gitignore'']) = Some (File gitignore_content)"
    and bound: "\<forall>q n. ?fs q = Some n \<longrightarrow>
        n = Dir \<or> q \<in> set (map (below (project_path example_generator)) expected_files)
        \<or> files example_world q = Some n"
    by blast
  from code c have "code = ''export default 1''" by simp
  with page have 1: "?fs (below (project_path example_generator) [''src'', ''app'', ''page.tsx''])
      = Some (File ''export default 1'')"
    by simp
  have 2: "?fs ?copy \<noteq> Some (File ''export default 1'')"
  proof
    assume "?fs ?copy = Some (File ''export default 1'')"
    with bound have "File ''export default 1'' = Dir
        \<or> ?copy \<in> set (map (below (project_path example_generator)) expected_files)
        \<or> files example_world ?copy = Some (File ''export default 1'')"
      by blast
    with n o show False by simp
  qed
  from ok 1 ignore 2 show ?thesis by blast
qed

text \<open>
  Claim C3 as the specification states it fails: the project name is user input
  (\<^verbatim>\<open>--project-name\<close>), and two successful runs of \<^verbatim>\<open>main\<close> that differ in nothing
  else write different texts to \<^verbatim>\<open>package.json\<close>.
\<close>

theorem package_json_depends_on_project_name:
  "files (snd (main example_args None (answers ''export default 1'') example_world))
      (Relative, [''out'', ''site'', ''package.json'']) = Some (File (package_json ''site''))
   \<and> stdout (snd (main example_args None (answers ''export default 1'') example_world))
      = [SuccessBanner (Relative, [''out'', ''site''])]
   \<and> files (snd (main (example_args\<lparr>arg_project_name := ''Shop''\<rparr>) None
        (answers ''export default 1'') example_world))
      (Relative, [''out'', ''shop'', ''package.json'']) = Some (File (package_json ''shop''))
   \<and> stdout (snd (main (example_args\<lparr>arg_project_name := ''Shop''\<rparr>) None
        (answers ''export default 1'') example_world))
      = [SuccessBanner (Relative, [''out'', ''shop''])]
   \<and> package_json ''site'' \<noteq> package_json ''shop''"
proof -
  have 1: "package_json ''site'' \<noteq> package_json ''shop''"
    by (simp add: package_json_def json_string_def json_escape_def)
  have 2: "files (snd (main example_args None (answers ''export default 1'') example_world))
      (Relative, [''out'', ''site'', ''package.json'']) = Some (File (package_json ''site''))
    \<and> stdout (snd (main example_args None (answers ''export default 1'') example_world))
      = [SuccessBanner (Relative, [''out'', ''site''])]"
    unfolding example_main_run [of example_args "answers ''export default 1''",
        OF example_args_key(1) example_args_input(1)]
    by (simp add: example_args_def clean_examples DirectWebsiteGenerator_def
        joinpath_def Path_def anchor_of_def run_defs example_world_def example_files_def answers_def)
  have 3: "files (snd (main (example_args\<lparr>arg_project_name := ''Shop''\<rparr>) None
        (answers ''export default 1'') example_world))
      (Relative, [''out'', ''shop'', ''package.json'']) = Some (File (package_json ''shop''))
   \<and> stdout (snd (main (example_args\<lparr>arg_project_name := ''Shop''\<rparr>) None
        (answers ''export default 1'') example_world))
      = [SuccessBanner (Relative, [''out'', ''shop''])]"
    unfolding example_main_run [of "example_args\<lparr>arg_project_name := ''Shop''\<rparr>"
        "answers ''export default 1''", OF example_args_key(2) example_args_input(2)]
    by (simp add: example_args_def clean_examples DirectWebsiteGenerator_def
        joinpath_def Path_def anchor_of_def run_defs example_world_def example_files_def answers_def)
  from 1 2 3 show ?thesis by blast
qed

text \<open>
  Claim C8. When the project path is a directory before the run and the run succeeds,
  the entries at and below the project path afterwards are exactly the five fixed
  directories and the eleven fixed files: whatever else was there is gone.
\<close>

theorem stale_files_purged:
  assumes dir: "node_at (files w) (project_path g) = Some Dir"
    and ok: "fst (generate_website g srv t w)"
  shows "(files (snd (generate_website g srv t w)) (below (project_path g) r) \<noteq> None
            \<longleftrightarrow> r \<in> set expected_dirs \<or> r \<in> set expected_files)
    \<and> (files (snd (generate_website g srv t w)) (below (project_path g) r) = Some Dir
            \<longleftrightarrow> r \<in> set expected_dirs)
    \<and> ((\<exists>text. files (snd (generate_website g srv t w)) (below (project_path g) r) = Some (File text))
            \<longleftrightarrow> r \<in> set expected_files)"
proof -
  from ok obtain code fs2 where
    F: "files (snd (generate_website g srv t w)) =
      with_files (project_path g) (project_files (project_name (config g)) code) fs2"
    and S: "path_exists (files w) (project_path g) \<Longrightarrow>
      \<not> is_root (project_path g) \<and> files w (project_path g) = Some Dir
      \<and> (\<forall>r. fs2 (below (project_path g) r) = (if r \<in> set expected_dirs then Some Dir else None))"
    by (rule project_files_after_success) blast
  from dir have "path_exists (files w) (project_path g)" by (simp add: path_exists_def)
  with S have D: "fs2 (below (project_path g) r) = (if r \<in> set expected_dirs then Some Dir else None)"
    by blast
  show ?thesis
  proof (cases "map_of (project_files (project_name (config g)) code) r")
    case None
    then have "r \<notin> set expected_files" by (simp add: map_of_project_files_None)
    with None D show ?thesis by (simp add: F with_files_lookup)
  next
    case (Some c)
    then have "r \<in> set expected_files"
      using map_of_project_files_None [of "project_name (config g)" code r] by simp
    with Some expected_disjoint [of r] show ?thesis by (simp add: F with_files_lookup)
  qed
qed

text \<open>Claim C8 at the example run: the earlier project held \<^verbatim>\<open>notes.txt\<close>, which the run
  removes.\<close>

theorem stale_files_purged_witness:
  "node_at (files example_world) (project_path example_generator) = Some Dir
   \<and> files example_world (below (project_path example_generator) [''notes.txt'']) = Some (File ''old'')
   \<and> fst (generate_website example_generator (answers ''export default 1'') ''a landing page'' example_world)
   \<and> files (snd (generate_website example_generator (answers ''export default 1'') ''a landing page''
        example_world)) (below (project_path example_generator) [''notes.txt'']) = None
   \<and> files (snd (generate_website example_generator (answers ''export default 1'') ''a landing page''
        example_world)) (below (project_path example_generator) [''src'', ''components'']) = Some Dir"
proof -
  have d: "node_at (files example_world) (project_path example_generator) = Some Dir"
    by (simp add: example_project_path example_world_def example_files_def node_at_def is_root_def)
  have s: "files example_world (below (project_path example_generator) [''notes.txt'']) = Some (File ''old'')"
    by (simp add: example_project_path example_world_def example_files_def below_def)
  note ok = example_run_succeeds [of "''export default 1''"]
  from stale_files_purged [OF d ok, of "[''notes.txt'']"] stale_files_purged [OF d ok, of "[''src'', ''components'']"]
  have "files (snd (generate_website example_generator (answers ''export default 1'') ''a landing page''
        example_world)) (below (project_path example_generator) [''notes.txt'']) = None"
    and "files (snd (generate_website example_generator (answers ''export default 1'') ''a landing page''
        example_world)) (below (project_path example_generator) [''src'', ''components'']) = Some Dir"
    by (simp_all add: expected_dirs_def expected_files_def)
  with d s ok show ?thesis by simp
qed

section \<open>The runs of \<^verbatim>\<open>main\<close>\<close>

text \<open>
  Claim C4. Without \<^verbatim>\<open>--api-key\<close> and without \<^verbatim>\<open>OPENAI_API_KEY\<close> the run of \<^verbatim>\<open>main\<close>
  logs the configuration error and returns: no request is sent and the file system is
  as before (and nothing is printed).
\<close>

theorem missing_key_no_side_effects:
  assumes "arg_api_key a = None"
  shows "main a None srv w = (Returned, logger_error
      ''OpenAI API key is required. Use --api-key or set OPENAI_API_KEY environment variable.'' w)
    \<and> files (snd (main a None srv w)) = files w
    \<and> requests (snd (main a None srv w)) = requests w
    \<and> stdout (snd (main a None srv w)) = stdout w"
  using assms by (simp add: main_def get_api_key_def logger_error_def)

text \<open>Claim C4 at the example command line without its key.\<close>

theorem missing_key_no_side_effects_witness:
  "arg_api_key (example_args\<lparr>arg_api_key := None\<rparr>) = None
   \<and> files (snd (main (example_args\<lparr>arg_api_key := None\<rparr>) None (answers ''export default 1'')
        example_world)) = files example_world
   \<and> requests (snd (main (example_args\<lparr>arg_api_key := None\<rparr>) None (answers ''export default 1'')
        example_world)) = []"
proof -
  have k: "arg_api_key (example_args\<lparr>arg_api_key := None\<rparr>) = None" by simp
  from missing_key_no_side_effects [OF k, of "answers ''export default 1''" example_world] k
  show ?thesis by (simp add: example_world_def logger_error_def)
qed

text \<open>
  Claim C6. When the generation call fails, \<^verbatim>\<open>generate_website\<close> returns \<^verbatim>\<open>False\<close> and
  the file system is as before the call: no step of the materializer has run, and no
  project directory has been created, in part or in whole.
\<close>

theorem generation_failure_before_materializer:
  assumes "fst (generate_website_code g srv t w0) = Inl e"
  shows "fst (generate_website g srv t w) = False
    \<and> files (snd (generate_website g srv t w)) = files w"
proof -
  from assms have "read_reply (srv (completion_request g t)) = Inl e"
    by (simp add: generate_website_code_fst)
  then show ?thesis
    by (simp add: generate_website_def generate_website_code_def Let_def logger_info_def
        logger_error_exn_def)
qed

text \<open>Claim C6 at the example run with a service that cannot be reached.\<close>

theorem generation_failure_before_materializer_witness:
  "fst (generate_website_code example_generator unreachable ''a landing page'' example_world)
     = Inl APIConnectionError
   \<and> fst (generate_website example_generator unreachable ''a landing page'' example_world) = False
   \<and> files (snd (generate_website example_generator unreachable ''a landing page'' example_world))
       = files example_world"
proof -
  have f: "fst (generate_website_code example_generator unreachable ''a landing page'' example_world)
     = Inl APIConnectionError"
    by (simp add: generate_website_code_fst unreachable_def read_reply_def)
  from generation_failure_before_materializer [OF f, of example_world] f
  show ?thesis by simp
qed




end
